theory Spec2Isabelle
  imports Main "HOL-Library.Word" "HOL-Library.Sublist"
begin

section \<open>Strings\<close>

text \<open>
  A Python \<open>str\<close> is a sequence of Unicode code points and \<open>len\<close> counts code points, so a
  string is a list of code point numbers. ASCII literals are written through \<open>ascii\<close>.
\<close>

type_synonym pystr = "nat list"

definition ascii :: "string \<Rightarrow> pystr" where
  "ascii s = map of_char s"

text \<open>
  \<open>str.isspace\<close> for one code point, which is what \<open>str.split()\<close> without a separator
  splits on: the Unicode white space characters and the four ASCII separators 28..31.
\<close>

definition is_space :: "nat \<Rightarrow> bool" where
  "is_space c \<longleftrightarrow>
     (9 \<le> c \<and> c \<le> 13) \<or> (28 \<le> c \<and> c \<le> 32) \<or> c = 133 \<or> c = 160 \<or> c = 5760 \<or>
     (8192 \<le> c \<and> c \<le> 8202) \<or> c = 8232 \<or> c = 8233 \<or> c = 8239 \<or> c = 8287 \<or> c = 12288"

text \<open>
  \<open>text.split()\<close>: the maximal runs of non-space characters, in order; \<open>cur\<close> is the
  word being read.
\<close>

fun split_from :: "pystr \<Rightarrow> pystr \<Rightarrow> pystr list" where
  "split_from cur [] = (if cur = [] then [] else [cur])"
| "split_from cur (c # cs) =
     (if is_space c then (if cur = [] then split_from [] cs else cur # split_from [] cs)
      else split_from (cur @ [c]) cs)"

definition split :: "pystr \<Rightarrow> pystr list" where
  "split text = split_from [] text"

text \<open>\<open>sep.join(xs)\<close>.\<close>

fun str_join :: "pystr \<Rightarrow> pystr list \<Rightarrow> pystr" where
  "str_join sep [] = []"
| "str_join sep [x] = x"
| "str_join sep (x # y # ys) = x @ sep @ str_join sep (y # ys)"

abbreviation sp :: pystr where
  "sp \<equiv> [32]"

section \<open>The text wrapper\<close>

text \<open>
  The loop of \<open>wrap_text\<close> over the words, with the two lists it mutates, \<open>lines\<close> and
  \<open>line\<close>, passed along and returned.
\<close>

fun wrap_loop :: "pystr list \<Rightarrow> int \<Rightarrow> pystr list \<Rightarrow> pystr list \<Rightarrow> pystr list \<times> pystr list" where
  "wrap_loop [] max_chars lines line = (lines, line)"
| "wrap_loop (w # ws) max_chars lines line =
     (if int (sum_list (map length line)) + int (length line) + int (length w) > max_chars
      then wrap_loop ws max_chars (lines @ [str_join sp line]) [w]
      else wrap_loop ws max_chars lines (line @ [w]))"

text \<open>The value of \<open>lines\<close> when \<open>wrap_text\<close> reaches its \<open>return\<close>.\<close>

definition wrap_lines :: "pystr \<Rightarrow> int \<Rightarrow> pystr list" where
  "wrap_lines text max_chars =
     (case wrap_loop (split text) max_chars [] [] of
        (lines, line) \<Rightarrow> (if line \<noteq> [] then lines @ [str_join sp line] else lines))"

definition wrap_text :: "pystr \<Rightarrow> int \<Rightarrow> pystr list" where
  "wrap_text text max_chars = take 6 (wrap_lines text max_chars)"

text \<open>
  The wrapper as the specification words it, on groups of words: the next word joins the
  current line unless the joined line with that word, inter-word spaces counted, would be
  longer than the maximum; then the current line is emitted and the word starts a new one.
  The line being filled at the end is emitted when it holds a word.
\<close>

fun greedy_fill :: "pystr list \<Rightarrow> int \<Rightarrow> pystr list \<Rightarrow> pystr list list" where
  "greedy_fill [] max_chars cur = (if cur = [] then [] else [cur])"
| "greedy_fill (w # ws) max_chars cur =
     (if int (length (str_join sp (cur @ [w]))) > max_chars
      then cur # greedy_fill ws max_chars [w]
      else greedy_fill ws max_chars (cur @ [w]))"

section \<open>Exceptions\<close>

text \<open>
  An exception value is its class and its message, \<open>str(e)\<close>. Every class here derives
  from \<open>Exception\<close>, so an \<open>except Exception\<close> clause catches each of them; the
  interpreter's exit signals (\<open>KeyboardInterrupt\<close>, \<open>SystemExit\<close>), which are not
  failures of the program, are not modelled. Message texts of library exceptions are
  abbreviated.
\<close>

datatype exn_class = ImportError | ValueError | OverflowError | AttributeError | OSError | RuntimeError

datatype exn = Exn exn_class pystr

fun str_exn :: "exn \<Rightarrow> pystr" where
  "str_exn (Exn c msg) = msg"

fun class_of :: "exn \<Rightarrow> exn_class" where
  "class_of (Exn c msg) = c"

definition bind_exn :: "exn + 'a \<Rightarrow> ('a \<Rightarrow> exn + 'b) \<Rightarrow> exn + 'b" where
  "bind_exn m f = (case m of Inl e \<Rightarrow> Inl e | Inr x \<Rightarrow> f x)"

section \<open>Integer times float literal, truncated\<close>

text \<open>
  \<open>int(m * c)\<close> for an integer \<open>m\<close> and a float literal \<open>c\<close>, in IEEE double precision
  with round-to-nearest-even, computed on integers. \<open>round53 p\<close> rounds the non-negative
  integer \<open>p\<close> to 53 significant bits: the result \<open>(q, k)\<close> stands for \<open>q * 2 ^ k\<close>.
\<close>

function bit_length :: "int \<Rightarrow> nat" where
  "bit_length n = (if n \<le> 0 then 0 else Suc (bit_length (n div 2)))"
  by pat_completeness auto
termination
  by (relation "measure nat") auto

declare bit_length.simps [simp del]

definition round53 :: "int \<Rightarrow> int \<times> nat" where
  "round53 p =
     (let k = bit_length p - 53; q = p div 2 ^ k; r = p mod 2 ^ k
      in if 2 * r > 2 ^ k \<or> (2 * r = 2 ^ k \<and> odd q) then (q + 1, k) else (q, k))"

text \<open>
  The literal is \<open>mant / 2 ^ ex\<close> with a 53 bit \<open>mant\<close>. The integer is converted to a
  double first (OverflowError from \<open>2 ^ 1024\<close> on), the exact product of the two doubles is
  rounded, and \<open>int\<close> truncates towards zero.
\<close>

definition int_mul_float :: "int \<Rightarrow> int \<Rightarrow> nat \<Rightarrow> exn + int" where
  "int_mul_float m mant ex =
     (case round53 \<bar>m\<bar> of (r1, k1) \<Rightarrow>
        if r1 * 2 ^ k1 \<ge> 2 ^ 1024
        then Inl (Exn OverflowError (ascii ''int too large to convert to float''))
        else (case round53 (r1 * mant) of (r2, k2) \<Rightarrow>
                Inr (sgn m * ((r2 * 2 ^ (k1 + k2)) div 2 ^ ex))))"

text \<open>The four literals of the synthesizer: 0.3, 0.6, 0.08 and 0.04 as doubles.\<close>

definition times_0_3 :: "int \<Rightarrow> exn + int" where
  "times_0_3 m = int_mul_float m 5404319552844595 54"

definition times_0_6 :: "int \<Rightarrow> exn + int" where
  "times_0_6 m = int_mul_float m 5404319552844595 53"

definition times_0_08 :: "int \<Rightarrow> exn + int" where
  "times_0_08 m = int_mul_float m 5764607523034235 56"

definition times_0_04 :: "int \<Rightarrow> exn + int" where
  "times_0_04 m = int_mul_float m 5764607523034235 57"

section \<open>The world and the libraries\<close>

text \<open>
  What a request handler reads from outside the program: the operating system's entropy
  (\<open>os.urandom\<close>) as an unbounded sequence of bytes with a read position, and the clock
  (the text \<open>datetime.utcnow().isoformat()\<close> gives). \<open>calls\<close> records, in order, the
  calls the generate handler makes, so that what a handler attempted can be stated.
\<close>

datatype call = CallUrandom | CallSynthesize | CallSave | CallB64encode | CallUtcnow

record world =
  entropy :: "nat \<Rightarrow> 8 word"
  entropy_pos :: nat
  utcnow_iso :: pystr
  calls :: "call list"

definition urandom :: "nat \<Rightarrow> world \<Rightarrow> 8 word list \<times> world" where
  "urandom n w =
     (map (entropy w) [entropy_pos w ..< entropy_pos w + n], w\<lparr>entropy_pos := entropy_pos w + n\<rparr>)"

definition record_call :: "call \<Rightarrow> world \<Rightarrow> world" where
  "record_call c w = w\<lparr>calls := calls w @ [c]\<rparr>"

text \<open>\<open>int.from_bytes(bs, 'big')\<close>.\<close>

definition from_bytes_big :: "8 word list \<Rightarrow> int" where
  "from_bytes_big bs = foldl (\<lambda>acc b. acc * 256 + uint b) 0 bs"

text \<open>
  Pillow images are the terms of the Pillow calls that build them: the pixels of an image
  are what Pillow computes from its term.
\<close>

datatype font = TrueTypeFont pystr int | DefaultFont

datatype image =
    New pystr "int \<times> int" "int list"
  | Ellipse image "int \<times> int \<times> int \<times> int" int
  | PutAlpha image image
  | Paste image image "int \<times> int" image
  | GaussianBlur image int int
  | MultilineText image "int \<times> int" pystr font "int list" int pystr

text \<open>
  The library functions whose results the program only passes along. \<open>'g\<close> is the state
  of a \<open>random.Random\<close> instance: \<open>seed_rng\<close> is \<open>Random(seed)\<close> for an integer seed,
  \<open>entropy_rng\<close> is \<open>Random(None)\<close> from the bytes of entropy it reads, \<open>randbelow n\<close> is
  \<open>Random._randbelow(n)\<close>. \<open>truetype\<close> is \<open>ImageFont.truetype\<close>, which fails when the
  font file is not installed. \<open>alpha r radius\<close> is the float expression
  \<open>int(255 * (r / radius) ** 2)\<close>. \<open>multiline_textsize text font spacing\<close> measures a
  text block. \<open>save_png\<close> is \<open>img.save(buffer, format="PNG")\<close> followed by
  \<open>buffer.getvalue()\<close>, and \<open>b64encode\<close> is \<open>base64.b64encode(...).decode("utf-8")\<close>.
\<close>

record 'g lib =
  seed_rng :: "int \<Rightarrow> 'g"
  entropy_rng :: "8 word list \<Rightarrow> 'g"
  randbelow :: "int \<Rightarrow> 'g \<Rightarrow> int \<times> 'g"
  truetype :: "pystr \<Rightarrow> int \<Rightarrow> exn + font"
  alpha :: "int \<Rightarrow> int \<Rightarrow> int"
  multiline_textsize :: "pystr \<Rightarrow> font \<Rightarrow> int \<Rightarrow> exn + (int \<times> int)"
  save_png :: "image \<Rightarrow> exn + 8 word list"
  b64encode :: "8 word list \<Rightarrow> pystr"

text \<open>
  \<open>Random.randint(a, b)\<close> is \<open>randrange(a, b + 1)\<close>: with \<open>width = b + 1 - a\<close>, the
  result is \<open>a + _randbelow(width)\<close> when \<open>width > 0\<close> and a ValueError otherwise.
\<close>

definition randint :: "'g lib \<Rightarrow> int \<Rightarrow> int \<Rightarrow> 'g \<Rightarrow> exn + (int \<times> 'g)" where
  "randint lib a b g =
     (let width = b + 1 - a
      in if width > 0 then (case randbelow lib width g of (r, g') \<Rightarrow> Inr (a + r, g'))
         else Inl (Exn ValueError (ascii ''empty range for randrange()'')))"

text \<open>\<open>Image.new(mode, size, color)\<close> refuses a negative width or height
  (\<open>dims\<close> is its \<open>size\<close> argument). Pillow also refuses sizes too large for its C
  integers or for memory; those lie far above the sizes the endpoint allows and are not
  modelled.\<close>

definition image_new :: "pystr \<Rightarrow> int \<times> int \<Rightarrow> int list \<Rightarrow> exn + image" where
  "image_new mode dims fill =
     (if fst dims < 0 \<or> snd dims < 0
      then Inl (Exn ValueError (ascii ''Width and height must be >= 0''))
      else Inr (New mode dims fill))"

section \<open>The font resolver\<close>

definition get_font :: "'g lib \<Rightarrow> int \<Rightarrow> font" where
  "get_font lib pt =
     (case truetype lib (ascii ''DejaVuSans.ttf'') pt of
        Inr f \<Rightarrow> f
      | Inl e \<Rightarrow>
          (case truetype lib (ascii ''arial.ttf'') pt of
             Inr f \<Rightarrow> f
           | Inl e' \<Rightarrow> DefaultFont))"

section \<open>The image synthesizer\<close>

text \<open>
  One pass of the glow loop draws five numbers, in this order: \<open>cx\<close>, \<open>cy\<close>, \<open>radius\<close> and
  the red and green channels of \<open>color\<close>.
\<close>

record blob =
  cx :: int
  cy :: int
  radius :: int
  color :: "int list"

definition draw_blob :: "'g lib \<Rightarrow> int \<Rightarrow> int \<Rightarrow> 'g \<Rightarrow> exn + (blob \<times> 'g)" where
  "draw_blob lib width height g =
     bind_exn (randint lib 0 width g) (\<lambda>(x, g1).
     bind_exn (randint lib 0 height g1) (\<lambda>(y, g2).
     bind_exn (times_0_3 (min width height)) (\<lambda>lo.
     bind_exn (times_0_6 (min width height)) (\<lambda>hi.
     bind_exn (randint lib lo hi g2) (\<lambda>(r, g3).
     bind_exn (randint lib 80 180 g3) (\<lambda>(red, g4).
     bind_exn (randint lib 80 180 g4) (\<lambda>(green, g5).
       Inr (\<lparr>cx = x, cy = y, radius = r, color = [red, green, 255]\<rparr>, g5))))))))"

text \<open>\<open>range(radius, 0, -2)\<close>.\<close>

function ring_radii :: "int \<Rightarrow> int list" where
  "ring_radii r = (if r > 0 then r # ring_radii (r - 2) else [])"
  by pat_completeness auto
termination
  by (relation "measure nat") auto

declare ring_radii.simps [simp del]

text \<open>
  The rest of the loop body in three parts. \<open>radial_mask\<close> is the alpha mask \<open>radial\<close>:
  a new image of mode L with one ellipse drawn for each ring radius.
\<close>

definition radial_mask :: "'g lib \<Rightarrow> int \<Rightarrow> exn + image" where
  "radial_mask lib rad =
     bind_exn (image_new (ascii ''L'') (rad * 2, rad * 2) [0]) (\<lambda>radial0.
       Inr (foldl (\<lambda>im r. Ellipse im (rad - r, rad - r, rad + r, rad + r) (alpha lib r rad))
              radial0 (ring_radii rad)))"

text \<open>\<open>glow_of\<close> is the image \<open>glow\<close>: the blob's colour with the mask as its alpha.\<close>

definition glow_of :: "'g lib \<Rightarrow> blob \<Rightarrow> exn + image" where
  "glow_of lib b =
     bind_exn (radial_mask lib (radius b)) (\<lambda>radial.
     bind_exn (image_new (ascii ''RGBA'') (radius b * 2, radius b * 2) (color b @ [0])) (\<lambda>glow0.
       Inr (PutAlpha glow0 radial)))"

text \<open>\<open>paste_blob\<close> pastes the glow onto the image, through itself as the mask.\<close>

definition paste_blob :: "'g lib \<Rightarrow> image \<Rightarrow> blob \<Rightarrow> exn + image" where
  "paste_blob lib img b =
     bind_exn (glow_of lib b) (\<lambda>glow.
       Inr (Paste img glow (cx b - radius b, cy b - radius b) glow))"

fun glow_loop :: "'g lib \<Rightarrow> int \<Rightarrow> int \<Rightarrow> nat \<Rightarrow> image \<times> 'g \<Rightarrow> exn + (image \<times> 'g)" where
  "glow_loop lib width height 0 s = Inr s"
| "glow_loop lib width height (Suc n) (img, g) =
     bind_exn (draw_blob lib width height g) (\<lambda>(b, g').
     bind_exn (paste_blob lib img b) (\<lambda>img'.
       glow_loop lib width height n (img', g')))"

text \<open>
  \<open>random.Random(seed)\<close>: an integer seed determines the generator; \<open>None\<close> seeds it from
  the operating system's entropy (2496 bytes in CPython).
\<close>

definition new_random :: "'g lib \<Rightarrow> int option \<Rightarrow> world \<Rightarrow> 'g \<times> world" where
  "new_random lib seed w =
     (case seed of
        Some s \<Rightarrow> (seed_rng lib s, w)
      | None \<Rightarrow> (case urandom 2496 w of (bs, w') \<Rightarrow> (entropy_rng lib bs, w')))"

text \<open>The card, the font and the text, drawn on the image the glow loop leaves.\<close>

definition draw_card_and_text :: "'g lib \<Rightarrow> pystr \<Rightarrow> int \<Rightarrow> int \<Rightarrow> image \<Rightarrow> exn + image" where
  "draw_card_and_text lib prompt width height img =
     bind_exn (times_0_08 (min width height)) (\<lambda>card_margin.
     let card_box = (card_margin, card_margin, width - card_margin, height - card_margin)
     in bind_exn (image_new (ascii ''RGBA'')
           (width - card_margin - card_margin, height - card_margin - card_margin)
           [20, 24, 48, 180]) (\<lambda>card0.
        let card = GaussianBlur card0 1 2;
            img1 = Paste img card (card_margin, card_margin) card
        in bind_exn (times_0_04 (min width height)) (\<lambda>scaled.
           let font_size = max 18 scaled;
               font = get_font lib font_size;
               lines = wrap_text prompt 32;
               text = str_join [10] lines
           in bind_exn (multiline_textsize lib text font 8) (\<lambda>(tw, th).
              let tx = (width - tw) div 2;
                  ty = (height - th) div 2;
                  img2 = MultilineText img1 (tx + 2, ty + 2) text font [0, 0, 0, 255] 8 (ascii ''center'');
                  img3 = MultilineText img2 (tx, ty) text font [230, 240, 255, 255] 8 (ascii ''center'')
              in Inr img3))))"

definition generate_placeholder_image ::
  "'g lib \<Rightarrow> pystr \<Rightarrow> int \<Rightarrow> int \<Rightarrow> int option \<Rightarrow> world \<Rightarrow> (exn + image) \<times> world" where
  "generate_placeholder_image lib prompt width height seed w =
     (case new_random lib seed w of (rnd, w') \<Rightarrow>
        (bind_exn (image_new (ascii ''RGB'') (width, height) [10, 12, 26]) (\<lambda>img.
         bind_exn (glow_loop lib width height 3 (img, rnd)) (\<lambda>(img', rnd').
           draw_card_and_text lib prompt width height img')), w'))"

section \<open>The generate endpoint\<close>

record GenerateRequest =
  req_prompt :: pystr
  req_width :: int
  req_height :: int
  req_seed :: "int option"

record GenerateResponse =
  image_base64 :: pystr
  mime_type :: pystr
  resp_width :: int
  resp_height :: int
  resp_prompt :: pystr
  resp_seed :: int
  generated_at :: pystr

text \<open>
  What the client receives: the response model with status 200, the validation error with
  status 422 and the names of the fields that failed, the error with status 500 and its
  detail, or the plain status 500 the server answers when writing a response fails.
\<close>

datatype http_response =
    Http200 GenerateResponse
  | Http422 "pystr list"
  | Http500 pystr
  | InternalServerError

text \<open>The body of \<open>generate_image\<close>: the \<open>try\<close> block, and the \<open>except\<close> clause as \<open>failed\<close>.\<close>

definition failed :: "exn \<Rightarrow> http_response" where
  "failed e = Http500 (ascii ''Generation failed: '' @ str_exn e)"

definition resolve_seed :: "GenerateRequest \<Rightarrow> world \<Rightarrow> int \<times> world" where
  "resolve_seed req w =
     (case req_seed req of
        Some s \<Rightarrow> (s, w)
      | None \<Rightarrow> (case urandom 4 (record_call CallUrandom w) of (bs, w') \<Rightarrow> (from_bytes_big bs, w')))"

definition generate_image :: "'g lib \<Rightarrow> GenerateRequest \<Rightarrow> world \<Rightarrow> http_response \<times> world" where
  "generate_image lib req w =
     (case resolve_seed req w of (seed, w1) \<Rightarrow>
      case generate_placeholder_image lib (req_prompt req) (req_width req) (req_height req)
             (Some seed) (record_call CallSynthesize w1) of (res, w2) \<Rightarrow>
      (case res of
         Inl e \<Rightarrow> (failed e, w2)
       | Inr img \<Rightarrow>
           (case save_png lib img of
              Inl e \<Rightarrow> (failed e, record_call CallSave w2)
            | Inr png \<Rightarrow>
                (let w3 = record_call CallB64encode (record_call CallSave w2);
                     b64 = b64encode lib png;
                     w4 = record_call CallUtcnow w3
                 in (Http200 \<lparr>image_base64 = b64, mime_type = ascii ''image/png'',
                       resp_width = req_width req, resp_height = req_height req,
                       resp_prompt = req_prompt req, resp_seed = seed,
                       generated_at = utcnow_iso w4 @ ascii ''Z''\<rparr>, w4)))))"

text \<open>
  A text parsed from JSON can hold a lone surrogate code point, written there as an
  escape for one half of a surrogate pair; such a text is not valid Unicode and cannot be
  encoded as UTF-8.
\<close>

definition is_surrogate :: "nat \<Rightarrow> bool" where
  "is_surrogate c \<longleftrightarrow> 55296 \<le> c \<and> c \<le> 57343"

definition encodable :: "pystr \<Rightarrow> bool" where
  "encodable s = list_all (\<lambda>c. \<not> is_surrogate c) s"

text \<open>
  The request body as it arrives, each field present or absent, and the validation the
  declared field constraints of \<open>GenerateRequest\<close> stand for: \<open>prompt\<close> is required, a
  valid Unicode text with length 2 to 280, \<open>width\<close> and \<open>height\<close> default to 768 and lie
  in 256 to 1024, \<open>seed\<close> is any integer or absent. The result names the fields that
  failed.
\<close>

record raw_request =
  raw_prompt :: "pystr option"
  raw_width :: "int option"
  raw_height :: "int option"
  raw_seed :: "int option"

definition check_prompt :: "pystr option \<Rightarrow> pystr list" where
  "check_prompt p =
     (case p of
        None \<Rightarrow> [ascii ''prompt'']
      | Some s \<Rightarrow>
          if \<not> encodable s then [ascii ''prompt'']
          else if length s < 2 \<or> length s > 280 then [ascii ''prompt'']
          else [])"

definition check_size :: "pystr \<Rightarrow> int option \<Rightarrow> pystr list" where
  "check_size name v =
     (case v of
        None \<Rightarrow> []
      | Some n \<Rightarrow> if n < 256 \<or> n > 1024 then [name] else [])"

definition validate :: "raw_request \<Rightarrow> pystr list + GenerateRequest" where
  "validate raw =
     (let errors = check_prompt (raw_prompt raw) @ check_size (ascii ''width'') (raw_width raw)
                   @ check_size (ascii ''height'') (raw_height raw)
      in if errors \<noteq> [] then Inl errors
         else Inr \<lparr>req_prompt = (case raw_prompt raw of Some s \<Rightarrow> s | None \<Rightarrow> []),
                   req_width = (case raw_width raw of Some n \<Rightarrow> n | None \<Rightarrow> 768),
                   req_height = (case raw_height raw of Some n \<Rightarrow> n | None \<Rightarrow> 768),
                   req_seed = raw_seed raw\<rparr>)"


section \<open>The diagnostics endpoint\<close>

text \<open>
  The optional database collaborator. Importing \<open>db\<close> from the module \<open>database\<close>
  raises, or gives \<open>None\<close> or a handle. Of a handle the endpoint reads the attribute
  \<open>name\<close> (the value, or the exception the access raises; an AttributeError means the
  handle has no such attribute) and calls \<open>list_collection_names()\<close>.
\<close>

record db_handle =
  name_attr :: "exn + pystr"
  list_collection_names :: "exn + pystr list"

datatype import_result = ImportRaises exn | Imported "db_handle option"

record environ =
  env_DATABASE_URL :: "pystr option"
  env_DATABASE_NAME :: "pystr option"

text \<open>The \<open>response\<close> dictionary, one field per key.\<close>

record diagnostics =
  backend :: pystr
  database :: pystr
  database_url :: "pystr option"
  database_name :: "pystr option"
  connection_status :: pystr
  collections :: "pystr list"

definition initial_response :: diagnostics where
  "initial_response =
     \<lparr>backend = 9989 # ascii '' Running'',
      database = 10060 # ascii '' Not Available'',
      database_url = None,
      database_name = None,
      connection_status = ascii ''Not Connected'',
      collections = []\<rparr>"

text \<open>
  The inner \<open>try\<close> statement, around the listing of the collections; its \<open>except\<close>
  clause keeps the message's first 50 characters.
\<close>

definition list_collections :: "db_handle \<Rightarrow> diagnostics \<Rightarrow> diagnostics" where
  "list_collections db r =
     (case list_collection_names db of
        Inr cs \<Rightarrow> r\<lparr>collections := take 10 cs,
                    database := 9989 # ascii '' Connected & Working''\<rparr>
      | Inl e \<Rightarrow> r\<lparr>database := [9888, 65039] @ ascii ''  Connected but Error: '' @ take 50 (str_exn e)\<rparr>)"

text \<open>
  The body of the outer \<open>try\<close> statement: the exception it raises, if any, and the
  dictionary as the body leaves it.
\<close>

definition probe :: "import_result \<Rightarrow> diagnostics \<Rightarrow> exn option \<times> diagnostics" where
  "probe imp r =
     (case imp of
        ImportRaises e \<Rightarrow> (Some e, r)
      | Imported None \<Rightarrow> (None, r\<lparr>database := [9888, 65039] @ ascii ''  Available but not initialized''\<rparr>)
      | Imported (Some db) \<Rightarrow>
          (let r1 = r\<lparr>database := 9989 # ascii '' Available'',
                       database_url := Some (9989 # ascii '' Configured'')\<rparr>
           in case name_attr db of
                Inr v \<Rightarrow>
                  (None, list_collections db
                     (r1\<lparr>database_name := Some v, connection_status := ascii ''Connected''\<rparr>))
              | Inl e \<Rightarrow>
                  if class_of e = AttributeError
                  then (None, list_collections db
                          (r1\<lparr>database_name := Some (9989 # ascii '' Connected''),
                              connection_status := ascii ''Connected''\<rparr>))
                  else (Some e, r1)))"

text \<open>
  The endpoint: the body, the two \<open>except\<close> clauses of the outer \<open>try\<close> statement in
  their order, then the environment variables. \<open>os.getenv\<close> is true for a variable that
  is set to a non-empty text.
\<close>

definition env_status :: "pystr option \<Rightarrow> pystr" where
  "env_status v =
     (if v \<noteq> None \<and> v \<noteq> Some [] then 9989 # ascii '' Set'' else 10060 # ascii '' Not Set'')"

definition test_database :: "import_result \<Rightarrow> environ \<Rightarrow> exn + diagnostics" where
  "test_database imp env =
     (case probe imp initial_response of (raised, r) \<Rightarrow>
        (let r' = (case raised of
                     None \<Rightarrow> r
                   | Some e \<Rightarrow>
                       if class_of e = ImportError
                       then r\<lparr>database := 10060 # ascii '' Database module not found (run enable-database first)''\<rparr>
                       else r\<lparr>database := 10060 # ascii '' Error: '' @ take 50 (str_exn e)\<rparr>)
         in Inr (r'\<lparr>database_url := Some (env_status (env_DATABASE_URL env)),
                    database_name := Some (env_status (env_DATABASE_NAME env))\<rparr>)))"

section \<open>Specification predicates and an example library\<close>

text \<open>
  What the documentation of \<open>random\<close> promises of \<open>_randbelow(n)\<close> for a positive \<open>n\<close>:
  a number from 0 up to, not including, \<open>n\<close>.
\<close>

definition rng_ok :: "'g lib \<Rightarrow> bool" where
  "rng_ok lib \<longleftrightarrow>
     (\<forall>n g. 0 < n \<longrightarrow> 0 \<le> fst (randbelow lib n g) \<and> fst (randbelow lib n g) < n)"

definition channels_ok :: "int list \<Rightarrow> bool" where
  "channels_ok c =
     (case c of
        [r, g, b] \<Rightarrow> 80 \<le> r \<and> r \<le> 180 \<and> 80 \<le> g \<and> g \<le> 180 \<and> b = 255
      | _ \<Rightarrow> False)"

text \<open>
  The ranges of a blob as the specification words them: the centre in the half-open
  ranges \<open>[0, width)\<close> and \<open>[0, height)\<close>, the radius between 0.3 and 0.6 times the smaller
  side.
\<close>

definition claimed_ranges :: "int \<Rightarrow> int \<Rightarrow> blob \<Rightarrow> bool" where
  "claimed_ranges width height b \<longleftrightarrow>
     0 \<le> cx b \<and> cx b < width \<and> 0 \<le> cy b \<and> cy b < height
     \<and> 3 * min width height \<le> 10 * radius b \<and> 10 * radius b \<le> 6 * min width height
     \<and> channels_ok (color b)"

text \<open>
  The ranges the code draws from: both ends of each \<open>randint\<close> range included, and the
  ends of the radius range truncated to integers.
\<close>

definition drawn_ranges :: "int \<Rightarrow> int \<Rightarrow> blob \<Rightarrow> bool" where
  "drawn_ranges width height b \<longleftrightarrow>
     0 \<le> cx b \<and> cx b \<le> width \<and> 0 \<le> cy b \<and> cy b \<le> height
     \<and> (case (times_0_3 (min width height), times_0_6 (min width height)) of
          (Inr lo, Inr hi) \<Rightarrow> lo \<le> radius b \<and> radius b \<le> hi
        | _ \<Rightarrow> False)
     \<and> channels_ok (color b)"

text \<open>
  A blob is drawn in order from the generator state \<open>g\<close>, leaving \<open>g'\<close>: five calls of
  \<open>randint\<close>, each on the state the one before left, give the centre, the radius and the
  red and green channels; the blue channel is 255.
\<close>

definition drawn_in_order :: "'g lib \<Rightarrow> int \<Rightarrow> int \<Rightarrow> 'g \<Rightarrow> blob \<Rightarrow> 'g \<Rightarrow> bool" where
  "drawn_in_order lib width height g b g' \<longleftrightarrow>
     (\<exists>g1 g2 g3 g4 lo hi red green.
        randint lib 0 width g = Inr (cx b, g1)
        \<and> randint lib 0 height g1 = Inr (cy b, g2)
        \<and> times_0_3 (min width height) = Inr lo
        \<and> times_0_6 (min width height) = Inr hi
        \<and> randint lib lo hi g2 = Inr (radius b, g3)
        \<and> randint lib 80 180 g3 = Inr (red, g4)
        \<and> randint lib 80 180 g4 = Inr (green, g')
        \<and> color b = [red, green, 255])"

text \<open>
  The number of glows composited into an image: the pastes, along the chain of images an
  image was built on, whose pasted image carries an alpha mask set with \<open>putalpha\<close>.
\<close>

fun is_glow :: "image \<Rightarrow> bool" where
  "is_glow (PutAlpha im m) = True"
| "is_glow im = False"

fun pasted_glows :: "image \<Rightarrow> nat" where
  "pasted_glows (New mode dims fill) = 0"
| "pasted_glows (Ellipse im box a) = pasted_glows im"
| "pasted_glows (PutAlpha im m) = pasted_glows im"
| "pasted_glows (Paste im src pos m) = pasted_glows im + (if is_glow src then 1 else 0)"
| "pasted_glows (GaussianBlur im n d) = pasted_glows im"
| "pasted_glows (MultilineText im xy t f fill spacing align) = pasted_glows im"

text \<open>
  Uniform drawing, by counting: over a finite, non-empty set \<open>G\<close> of equally likely
  generator states, \<open>draw\<close> is uniform on the integers from \<open>a\<close> to \<open>b\<close>, both included,
  when every state gives a number of that range and every number of the range is given
  by equally many states. \<open>below_draw\<close> is the number \<open>_randbelow(n)\<close> gives in a state
  and \<open>randint_draw\<close> the number \<open>randint(a, b)\<close> gives, if it gives one.
\<close>

definition uniform_from :: "'g set \<Rightarrow> ('g \<Rightarrow> int option) \<Rightarrow> int \<Rightarrow> int \<Rightarrow> bool" where
  "uniform_from G draw a b \<longleftrightarrow>
     finite G \<and> G \<noteq> {}
     \<and> (\<forall>g \<in> G. \<exists>v. draw g = Some v \<and> a \<le> v \<and> v \<le> b)
     \<and> (\<forall>v v'. a \<le> v \<and> v \<le> b \<and> a \<le> v' \<and> v' \<le> b \<longrightarrow>
           card {g \<in> G. draw g = Some v} = card {g \<in> G. draw g = Some v'})"

definition below_draw :: "'g lib \<Rightarrow> int \<Rightarrow> 'g \<Rightarrow> int option" where
  "below_draw lib n g = Some (fst (randbelow lib n g))"

definition randint_draw :: "'g lib \<Rightarrow> int \<Rightarrow> int \<Rightarrow> 'g \<Rightarrow> int option" where
  "randint_draw lib a b g =
     (case randint lib a b g of Inr (v, g') \<Rightarrow> Some v | Inl e \<Rightarrow> None)"

text \<open>The image a response carries, if it carries one.\<close>

fun image_of :: "http_response \<Rightarrow> pystr option" where
  "image_of (Http200 r) = Some (image_base64 r)"
| "image_of (Http422 names) = None"
| "image_of (Http500 detail) = None"
| "image_of InternalServerError = None"

text \<open>
  An example library, to show that the hypotheses of the theorems below can be met. Its
  generator state is a list of numbers, and \<open>_randbelow(n)\<close> takes the next one modulo
  \<open>n\<close>. No font file is installed, a text block measures 6 by 11 pixels per character and
  line, and the encoders give fixed bytes.
\<close>

definition example_lib :: "int list lib" where
  "example_lib =
     \<lparr>seed_rng = (\<lambda>s. [s, s + 1, s + 2]),
      entropy_rng = (\<lambda>bs. map uint bs),
      randbelow = (\<lambda>n g. case g of [] \<Rightarrow> (0, []) | x # xs \<Rightarrow> (x mod n, xs)),
      truetype = (\<lambda>name pt. Inl (Exn OSError (ascii ''cannot open resource''))),
      alpha = (\<lambda>r rad. 255 * r * r div (rad * rad)),
      multiline_textsize = (\<lambda>t f s. Inr (6 * int (length t), 11)),
      save_png = (\<lambda>img. Inr [137, 80, 78, 71]),
      b64encode = (\<lambda>bs. ascii ''iVBORw=='')\<rparr>"

text \<open>
  The same library with a Pillow that has no \<open>multiline_textsize\<close>, as Pillow from
  version 10 on: the call raises an AttributeError with a message of 56 characters.
\<close>

definition no_textsize_lib :: "int list lib" where
  "no_textsize_lib =
     example_lib\<lparr>multiline_textsize :=
       (\<lambda>t f s. Inl (Exn AttributeError
          (ascii ''_ImageDraw_ object has no attribute _multiline_textsize_'')))\<rparr>"

text \<open>The example library with a PNG encoder that fails.\<close>

definition no_save_lib :: "int list lib" where
  "no_save_lib =
     example_lib\<lparr>save_png := (\<lambda>img. Inl (Exn OSError (ascii ''encoder error -2 when writing image file'')))\<rparr>"

definition example_world :: world where
  "example_world =
     \<lparr>entropy = (\<lambda>i. of_nat (i + 1)), entropy_pos = 0,
      utcnow_iso = ascii ''2024-01-01T00:00:00'', calls = []\<rparr>"

section \<open>Properties of the text wrapper\<close>

lemma length_str_join_snoc:
  "length (str_join sp (xs @ [w])) = sum_list (map length xs) + length xs + length w"
  by (induction xs rule: str_join.induct) auto

lemma wrap_loop_greedy:
  "(case wrap_loop ws mx lines line of
      (ls, l) \<Rightarrow> (if l \<noteq> [] then ls @ [str_join sp l] else ls)) =
   lines @ map (str_join sp) (greedy_fill ws mx line)"
proof (induction ws arbitrary: lines line)
  case Nil
  show ?case by simp
next
  case (Cons w ws)
  show ?case
  proof (cases "int (length (str_join sp (line @ [w]))) > mx")
    case True
    then have "int (sum_list (map length line)) + int (length line) + int (length w) > mx"
      by (simp add: length_str_join_snoc)
    then show ?thesis
      using Cons.IH [of "lines @ [str_join sp line]" "[w]"] True by simp
  next
    case False
    then have "\<not> int (sum_list (map length line)) + int (length line) + int (length w) > mx"
      by (simp add: length_str_join_snoc)
    then show ?thesis
      using Cons.IH [of lines "line @ [w]"] False by simp
  qed
qed

lemma wrap_lines_greedy:
  "wrap_lines text mx = map (str_join sp) (greedy_fill (split text) mx [])"
  using wrap_loop_greedy [of "split text" mx "[]" "[]"] by (simp add: wrap_lines_def)

lemma concat_greedy_fill: "concat (greedy_fill ws mx cur) = cur @ ws"
  by (induction ws arbitrary: cur) auto

lemma prefix_concat_take: "prefix (concat (take n xs)) (concat xs)"
proof -
  have "concat xs = concat (take n xs) @ concat (drop n xs)"
    by (metis append_take_drop_id concat_append)
  then show ?thesis
    by (metis prefixI)
qed

lemma greedy_fill_overlong:
  assumes "int (length w) > mx"
  shows "\<exists>rest. greedy_fill ws mx [w] = [w] # rest"
proof (cases ws)
  case Nil
  then show ?thesis by simp
next
  case (Cons v vs)
  have "int (length (str_join sp ([w] @ [v]))) > mx"
    using assms by simp
  then show ?thesis
    using Cons by simp
qed

lemma ascii_Nil [simp]: "ascii [] = []"
  by (simp add: ascii_def)

lemma ascii_Cons [simp]: "ascii (c # cs) = of_char c # ascii cs"
  by (simp add: ascii_def)

text \<open>
  C3. For every text and every maximum width, the lines of \<open>wrap_text\<close> are the first six
  groups of the greedy filling of the text's words, each group joined with single spaces:
  a word joins the current line unless the joined line with that word would be longer
  than the maximum, and then the current line is emitted and the word starts the next.
  The groups taken together are the words of the text in their order, so the lines hold a
  prefix of the words.
\<close>

theorem wrap_text_greedy:
  "wrap_text t mx = map (str_join sp) (take 6 (greedy_fill (split t) mx []))
   \<and> concat (greedy_fill (split t) mx []) = split t
   \<and> prefix (concat (take 6 (greedy_fill (split t) mx []))) (split t)"
proof -
  have "wrap_text t mx = map (str_join sp) (take 6 (greedy_fill (split t) mx []))"
    by (simp add: wrap_text_def wrap_lines_greedy take_map)
  moreover have c: "concat (greedy_fill (split t) mx []) = split t"
    by (simp add: concat_greedy_fill)
  moreover have "prefix (concat (take 6 (greedy_fill (split t) mx []))) (split t)"
    using prefix_concat_take [of 6 "greedy_fill (split t) mx []"] c by simp
  ultimately show ?thesis by simp
qed

text \<open>
  C4. \<open>wrap_text\<close> is a total function of the text and the width. A text without words
  gives no line. The result never has more than six lines: it is the first six of the
  lines the loop produced, so when the loop produced more than six the result has exactly
  six. The lines kept are the first six groups of the greedy filling; the words of the
  text are the words of those groups followed by the words of the groups after the sixth,
  which are dropped.
\<close>

theorem wrap_text_truncates:
  "length (wrap_text t mx) \<le> 6
   \<and> (split t = [] \<longrightarrow> wrap_text t mx = [])
   \<and> wrap_text t mx = take 6 (wrap_lines t mx)
   \<and> (length (wrap_lines t mx) > 6 \<longrightarrow> length (wrap_text t mx) = 6)
   \<and> wrap_text t mx = map (str_join sp) (take 6 (greedy_fill (split t) mx []))
   \<and> split t = concat (take 6 (greedy_fill (split t) mx []))
                @ concat (drop 6 (greedy_fill (split t) mx []))"
proof -
  have kept: "wrap_text t mx = map (str_join sp) (take 6 (greedy_fill (split t) mx []))"
    by (simp add: wrap_text_def wrap_lines_greedy take_map)
  have "concat (take 6 (greedy_fill (split t) mx []) @ drop 6 (greedy_fill (split t) mx []))
          = split t"
    by (simp add: concat_greedy_fill)
  then have dropped: "split t = concat (take 6 (greedy_fill (split t) mx []))
                @ concat (drop 6 (greedy_fill (split t) mx []))"
    by (simp only: concat_append)
  have none: "split t = [] \<Longrightarrow> wrap_text t mx = []"
    by (simp add: wrap_text_def wrap_lines_def)
  have six: "length (wrap_text t mx) \<le> 6 \<and> wrap_text t mx = take 6 (wrap_lines t mx)
      \<and> (length (wrap_lines t mx) > 6 \<longrightarrow> length (wrap_text t mx) = 6)"
    by (simp add: wrap_text_def)
  show ?thesis
    using kept dropped none six by blast
qed

theorem wrap_text_truncates_witness:
  "split (ascii ''   '') = [] \<and> wrap_text (ascii ''   '') 32 = []
   \<and> length (wrap_lines (ascii ''a b c d e f g h'') 1) > 6
   \<and> length (wrap_text (ascii ''a b c d e f g h'') 1) = 6"
proof -
  have e: "split (ascii ''   '') = []"
    by (simp add: split_def is_space_def)
  have l: "length (wrap_lines (ascii ''a b c d e f g h'') 1) > 6"
    by (simp add: wrap_lines_def split_def is_space_def)
  show ?thesis
    using e l wrap_text_truncates [of "ascii ''   ''" 32]
      wrap_text_truncates [of "ascii ''a b c d e f g h''" 1]
    by blast
qed

text \<open>
  C9. When the first word of the text is longer than the maximum width, the first line of
  the result is the empty string and the second line is that word alone, which is longer
  than the maximum.
\<close>

theorem wrap_text_overlong_first_word:
  assumes "split t = w # ws" and "int (length w) > mx"
  shows "\<exists>rest. wrap_text t mx = [] # w # rest \<and> int (length (wrap_text t mx ! 1)) > mx"
proof -
  have "int (length (str_join sp ([] @ [w]))) > mx"
    using assms(2) by simp
  then have g: "greedy_fill (split t) mx [] = [] # greedy_fill ws mx [w]"
    using assms(1) by simp
  obtain r where r: "greedy_fill ws mx [w] = [w] # r"
    using greedy_fill_overlong [OF assms(2)] by blast
  have "wrap_text t mx = [] # w # map (str_join sp) (take 4 r)"
    by (simp add: wrap_text_def wrap_lines_greedy g r take_map)
  then show ?thesis
    using assms(2) by simp
qed

theorem wrap_text_overlong_first_word_witness:
  "split (ascii ''abcdefgh xy'') = ascii ''abcdefgh'' # [ascii ''xy'']
   \<and> int (length (ascii ''abcdefgh'')) > 5
   \<and> (\<exists>rest. wrap_text (ascii ''abcdefgh xy'') 5 = [] # ascii ''abcdefgh'' # rest
        \<and> int (length (wrap_text (ascii ''abcdefgh xy'') 5 ! 1)) > 5)"
proof -
  have s: "split (ascii ''abcdefgh xy'') = ascii ''abcdefgh'' # [ascii ''xy'']"
    by (simp add: split_def is_space_def)
  have l: "int (length (ascii ''abcdefgh'')) > 5"
    by simp
  show ?thesis
    using s l wrap_text_overlong_first_word [OF s l] by blast
qed

section \<open>Properties of the diagnostics endpoint\<close>

lemma length_list_collections:
  "length (database (list_collections db r)) \<le> 75"
  by (simp add: list_collections_def split: sum.splits)

lemma probe_database_short:
  "length (database r) \<le> 75 \<Longrightarrow> length (database (snd (probe imp r))) \<le> 75"
  by (simp add: probe_def Let_def length_list_collections
      split: import_result.splits option.splits sum.splits)

lemma probe_import_error:
  "probe (ImportRaises e) r = (Some e, r)"
  by (simp add: probe_def)

lemma test_database_result:
  "test_database imp env =
     Inr ((case probe imp initial_response of
             (None, r) \<Rightarrow> r
           | (Some e, r) \<Rightarrow>
               if class_of e = ImportError
               then r\<lparr>database := 10060 # ascii '' Database module not found (run enable-database first)''\<rparr>
               else r\<lparr>database := 10060 # ascii '' Error: '' @ take 50 (str_exn e)\<rparr>)
          \<lparr>database_url := Some (env_status (env_DATABASE_URL env)),
            database_name := Some (env_status (env_DATABASE_NAME env))\<rparr>)"
  by (simp add: test_database_def split: prod.splits option.splits)

text \<open>
  C8. The diagnostics endpoint returns a response for every outcome of the import, every
  database handle and every environment: no exception leaves it, and each failure is
  summarized in the \<open>database\<close> field, a text of at most 75 characters. An ImportError,
  raised by the import or by reading \<open>name\<close>, gives the text that the module was not
  found; any other exception from there gives \<open>Error: \<close> and the first 50 characters of
  its message; in both cases \<open>collections\<close> is empty and the status stays
  \<open>Not Connected\<close>. A module without a handle gives \<open>Available but not initialized\<close>.
  With a handle whose name can be read, or that has none, the status is \<open>Connected\<close>;
  a failing listing gives \<open>Connected but Error: \<close> and the first 50 characters of the
  message with no collections, and a listing that succeeds gives \<open>Connected & Working\<close>
  and its first 10 names. The two environment fields say whether each variable is set.
\<close>

theorem test_database_never_raises:
  "\<exists>r. test_database imp env = Inr r
     \<and> length (database r) \<le> 75
     \<and> backend r = 9989 # ascii '' Running''
     \<and> database_url r = Some (env_status (env_DATABASE_URL env))
     \<and> database_name r = Some (env_status (env_DATABASE_NAME env))
     \<and> (\<forall>e. imp = ImportRaises e
              \<or> (\<exists>db. imp = Imported (Some db) \<and> name_attr db = Inl e
                        \<and> class_of e \<noteq> AttributeError) \<longrightarrow>
            collections r = [] \<and> connection_status r = ascii ''Not Connected''
            \<and> (class_of e = ImportError \<longrightarrow>
                 database r = 10060 # ascii '' Database module not found (run enable-database first)'')
            \<and> (class_of e \<noteq> ImportError \<longrightarrow>
                 database r = 10060 # ascii '' Error: '' @ take 50 (str_exn e)))
     \<and> (imp = Imported None \<longrightarrow>
            database r = [9888, 65039] @ ascii ''  Available but not initialized''
            \<and> collections r = [] \<and> connection_status r = ascii ''Not Connected'')
     \<and> (\<forall>db. imp = Imported (Some db)
               \<and> (case name_attr db of Inr v \<Rightarrow> True | Inl e \<Rightarrow> class_of e = AttributeError) \<longrightarrow>
            connection_status r = ascii ''Connected''
            \<and> (\<forall>e. list_collection_names db = Inl e \<longrightarrow>
                  database r = [9888, 65039] @ ascii ''  Connected but Error: '' @ take 50 (str_exn e)
                  \<and> collections r = [])
            \<and> (\<forall>cs. list_collection_names db = Inr cs \<longrightarrow>
                  database r = 9989 # ascii '' Connected & Working''
                  \<and> collections r = take 10 cs))"
proof -
  obtain r where res: "test_database imp env = Inr r"
    by (simp add: test_database_result)
  have r: "r = (case probe imp initial_response of
             (None, r) \<Rightarrow> r
           | (Some e, r) \<Rightarrow>
               if class_of e = ImportError
               then r\<lparr>database := 10060 # ascii '' Database module not found (run enable-database first)''\<rparr>
               else r\<lparr>database := 10060 # ascii '' Error: '' @ take 50 (str_exn e)\<rparr>)
          \<lparr>database_url := Some (env_status (env_DATABASE_URL env)),
            database_name := Some (env_status (env_DATABASE_NAME env))\<rparr>"
    using res by (simp add: test_database_result)
  have short0: "length (database initial_response) \<le> 75"
    by (simp add: initial_response_def)
  have len: "length (database r) \<le> 75"
    using probe_database_short [OF short0, of imp]
    by (cases "probe imp initial_response") (auto simp add: r split: option.splits)
  have env: "backend r = 9989 # ascii '' Running''
     \<and> database_url r = Some (env_status (env_DATABASE_URL env))
     \<and> database_name r = Some (env_status (env_DATABASE_NAME env))"
    by (cases imp)
      (auto simp add: r probe_def list_collections_def initial_response_def Let_def
        split: option.splits sum.splits)
  have raised: "collections r = [] \<and> connection_status r = ascii ''Not Connected''
            \<and> (class_of e = ImportError \<longrightarrow>
                 database r = 10060 # ascii '' Database module not found (run enable-database first)'')
            \<and> (class_of e \<noteq> ImportError \<longrightarrow>
                 database r = 10060 # ascii '' Error: '' @ take 50 (str_exn e))"
    if "imp = ImportRaises e
          \<or> (\<exists>db. imp = Imported (Some db) \<and> name_attr db = Inl e \<and> class_of e \<noteq> AttributeError)"
    for e
    using that by (auto simp add: r probe_def initial_response_def Let_def)
  have none: "database r = [9888, 65039] @ ascii ''  Available but not initialized''
            \<and> collections r = [] \<and> connection_status r = ascii ''Not Connected''"
    if "imp = Imported None"
    using that by (simp add: r probe_def initial_response_def)
  have conn: "connection_status r = ascii ''Connected''
            \<and> (\<forall>e. list_collection_names db = Inl e \<longrightarrow>
                  database r = [9888, 65039] @ ascii ''  Connected but Error: '' @ take 50 (str_exn e)
                  \<and> collections r = [])
            \<and> (\<forall>cs. list_collection_names db = Inr cs \<longrightarrow>
                  database r = 9989 # ascii '' Connected & Working''
                  \<and> collections r = take 10 cs)"
    if "imp = Imported (Some db)
          \<and> (case name_attr db of Inr v \<Rightarrow> True | Inl e \<Rightarrow> class_of e = AttributeError)"
    for db
    using that
    by (auto simp add: r probe_def list_collections_def initial_response_def Let_def
        split: sum.splits)
  show ?thesis
    using res len env raised none conn by blast
qed


theorem test_database_never_raises_witness:
  "(\<exists>r. test_database (ImportRaises (Exn ImportError (ascii ''No module named database'')))
          \<lparr>env_DATABASE_URL = None, env_DATABASE_NAME = None\<rparr> = Inr r
        \<and> database r = 10060 # ascii '' Database module not found (run enable-database first)''
        \<and> collections r = [])
   \<and> (\<exists>r. test_database (ImportRaises (Exn RuntimeError (replicate 60 120)))
          \<lparr>env_DATABASE_URL = Some (ascii ''mongodb://h''), env_DATABASE_NAME = Some []\<rparr> = Inr r
        \<and> database r = 10060 # ascii '' Error: '' @ replicate 50 120
        \<and> database_url r = Some (9989 # ascii '' Set'')
        \<and> database_name r = Some (10060 # ascii '' Not Set''))
   \<and> (\<exists>r. test_database (Imported None)
          \<lparr>env_DATABASE_URL = None, env_DATABASE_NAME = None\<rparr> = Inr r
        \<and> database r = [9888, 65039] @ ascii ''  Available but not initialized'')
   \<and> (\<exists>r. test_database
          (Imported (Some \<lparr>name_attr = Inl (Exn OSError (ascii ''closed'')),
                           list_collection_names = Inr []\<rparr>))
          \<lparr>env_DATABASE_URL = None, env_DATABASE_NAME = None\<rparr> = Inr r
        \<and> database r = 10060 # ascii '' Error: closed''
        \<and> connection_status r = ascii ''Not Connected'')
   \<and> (\<exists>r. test_database
          (Imported (Some \<lparr>name_attr = Inr (ascii ''app''),
                           list_collection_names = Inl (Exn OSError (replicate 60 120))\<rparr>))
          \<lparr>env_DATABASE_URL = None, env_DATABASE_NAME = None\<rparr> = Inr r
        \<and> database r = [9888, 65039] @ ascii ''  Connected but Error: '' @ replicate 50 120
        \<and> collections r = [])
   \<and> (\<exists>r. test_database
          (Imported (Some \<lparr>name_attr = Inl (Exn AttributeError (ascii ''name'')),
                           list_collection_names = Inr (replicate 12 (ascii ''c''))\<rparr>))
          \<lparr>env_DATABASE_URL = None, env_DATABASE_NAME = None\<rparr> = Inr r
        \<and> database r = 9989 # ascii '' Connected & Working''
        \<and> connection_status r = ascii ''Connected''
        \<and> collections r = replicate 10 (ascii ''c''))"
proof -
  let ?env = "\<lparr>env_DATABASE_URL = None, env_DATABASE_NAME = None\<rparr>"
  have 1: "\<exists>r. test_database (ImportRaises (Exn ImportError (ascii ''No module named database'')))
          ?env = Inr r
        \<and> database r = 10060 # ascii '' Database module not found (run enable-database first)''
        \<and> collections r = []"
    using test_database_never_raises
      [of "ImportRaises (Exn ImportError (ascii ''No module named database''))" ?env]
    by auto
  have 2: "\<exists>r. test_database (ImportRaises (Exn RuntimeError (replicate 60 120)))
          \<lparr>env_DATABASE_URL = Some (ascii ''mongodb://h''), env_DATABASE_NAME = Some []\<rparr> = Inr r
        \<and> database r = 10060 # ascii '' Error: '' @ replicate 50 120
        \<and> database_url r = Some (9989 # ascii '' Set'')
        \<and> database_name r = Some (10060 # ascii '' Not Set'')"
    using test_database_never_raises
      [of "ImportRaises (Exn RuntimeError (replicate 60 120))"
          "\<lparr>env_DATABASE_URL = Some (ascii ''mongodb://h''), env_DATABASE_NAME = Some []\<rparr>"]
    by (auto simp add: env_status_def)
  have 3: "\<exists>r. test_database (Imported None) ?env = Inr r
        \<and> database r = [9888, 65039] @ ascii ''  Available but not initialized''"
    using test_database_never_raises [of "Imported None" ?env]
    by auto
  have 4: "\<exists>r. test_database
          (Imported (Some \<lparr>name_attr = Inl (Exn OSError (ascii ''closed'')),
                           list_collection_names = Inr []\<rparr>)) ?env = Inr r
        \<and> database r = 10060 # ascii '' Error: closed''
        \<and> connection_status r = ascii ''Not Connected''"
    using test_database_never_raises
      [of "Imported (Some \<lparr>name_attr = Inl (Exn OSError (ascii ''closed'')),
                           list_collection_names = Inr []\<rparr>)" ?env]
    by auto
  have 5: "\<exists>r. test_database
          (Imported (Some \<lparr>name_attr = Inr (ascii ''app''),
                           list_collection_names = Inl (Exn OSError (replicate 60 120))\<rparr>)) ?env = Inr r
        \<and> database r = [9888, 65039] @ ascii ''  Connected but Error: '' @ replicate 50 120
        \<and> collections r = []"
    using test_database_never_raises
      [of "Imported (Some \<lparr>name_attr = Inr (ascii ''app''),
                           list_collection_names = Inl (Exn OSError (replicate 60 120))\<rparr>)" ?env]
    by auto
  have 6: "\<exists>r. test_database
          (Imported (Some \<lparr>name_attr = Inl (Exn AttributeError (ascii ''name'')),
                           list_collection_names = Inr (replicate 12 (ascii ''c''))\<rparr>)) ?env = Inr r
        \<and> database r = 9989 # ascii '' Connected & Working''
        \<and> connection_status r = ascii ''Connected''
        \<and> collections r = replicate 10 (ascii ''c'')"
    using test_database_never_raises
      [of "Imported (Some \<lparr>name_attr = Inl (Exn AttributeError (ascii ''name'')),
                           list_collection_names = Inr (replicate 12 (ascii ''c''))\<rparr>)" ?env]
    by auto
  show ?thesis
    using 1 2 3 4 5 6 by blast
qed

section \<open>Properties of the image synthesizer\<close>

lemma bit_length_0: "bit_length 0 = 0"
  by (subst bit_length.simps) simp

lemma bit_length_1: "bit_length 1 = 1"
  by (subst bit_length.simps) (simp add: bit_length_0)

lemma bit_length_Bit0: "bit_length (numeral (Num.Bit0 n)) = bit_length (numeral n) + 1"
  by (subst bit_length.simps) simp

lemma bit_length_Bit1: "bit_length (numeral (Num.Bit1 n)) = bit_length (numeral n) + 1"
  by (subst bit_length.simps) simp

lemma bit_length_One: "bit_length (numeral Num.One) = 1"
  by (simp add: bit_length_1)

lemmas bit_length_numeral = bit_length_0 bit_length_1 bit_length_Bit0 bit_length_Bit1 bit_length_One

lemma times_256:
  "times_0_3 256 = Inr 76" "times_0_6 256 = Inr 153"
  "times_0_08 256 = Inr 20" "times_0_04 256 = Inr 10"
  by (simp_all add: times_0_3_def times_0_6_def times_0_08_def times_0_04_def
      int_mul_float_def round53_def Let_def bit_length_numeral)

lemma randint_bounds:
  assumes "rng_ok lib" and "randint lib a b g = Inr (x, g')"
  shows "a \<le> x \<and> x \<le> b"
proof -
  have pos: "0 < b + 1 - a"
    using assms(2) by (simp add: randint_def Let_def split: if_splits)
  obtain r g1 where r: "randbelow lib (b + 1 - a) g = (r, g1)"
    by (cases "randbelow lib (b + 1 - a) g")
  have "0 \<le> r \<and> r < b + 1 - a"
    using assms(1) pos r unfolding rng_ok_def by (metis fst_conv)
  moreover have "x = a + r"
    using assms(2) pos r by (simp add: randint_def Let_def)
  ultimately show ?thesis by simp
qed

lemma randint_succeeds:
  assumes "a \<le> b"
  shows "\<exists>x g'. randint lib a b g = Inr (x, g')"
  using assms by (simp add: randint_def Let_def split: prod.splits)


lemma draw_blob_in_order:
  assumes "draw_blob lib width height g = Inr (b, g')"
  shows "drawn_in_order lib width height g b g'"
  using assms unfolding draw_blob_def bind_exn_def drawn_in_order_def
  by (auto split: sum.splits prod.splits)

lemma drawn_in_order_ranges:
  assumes "rng_ok lib" and "drawn_in_order lib width height g b g'"
  shows "drawn_ranges width height b"
proof -
  obtain g1 g2 g3 g4 lo hi red green where
    d: "randint lib 0 width g = Inr (cx b, g1)"
       "randint lib 0 height g1 = Inr (cy b, g2)"
       "times_0_3 (min width height) = Inr lo"
       "times_0_6 (min width height) = Inr hi"
       "randint lib lo hi g2 = Inr (radius b, g3)"
       "randint lib 80 180 g3 = Inr (red, g4)"
       "randint lib 80 180 g4 = Inr (green, g')"
       "color b = [red, green, 255]"
    using assms(2) unfolding drawn_in_order_def by blast
  note rb = randint_bounds [OF assms(1)]
  show ?thesis
    using rb [OF d(1)] rb [OF d(2)] rb [OF d(5)] rb [OF d(6)] rb [OF d(7)] d(3) d(4) d(8)
    by (simp add: drawn_ranges_def channels_ok_def)
qed

lemma draw_blob_succeeds:
  assumes "0 \<le> width" and "0 \<le> height"
    and "times_0_3 (min width height) = Inr lo" and "times_0_6 (min width height) = Inr hi"
    and "lo \<le> hi"
  shows "\<exists>b g'. draw_blob lib width height g = Inr (b, g')"
proof -
  obtain x g1 where 1: "randint lib 0 width g = Inr (x, g1)"
    using randint_succeeds [OF assms(1), where lib = lib and g = g] by blast
  obtain y g2 where 2: "randint lib 0 height g1 = Inr (y, g2)"
    using randint_succeeds [OF assms(2), where lib = lib and g = g1] by blast
  obtain r g3 where 3: "randint lib lo hi g2 = Inr (r, g3)"
    using randint_succeeds [OF assms(5), where lib = lib and g = g2] by blast
  obtain red g4 where 4: "randint lib 80 180 g3 = Inr (red, g4)"
    using randint_succeeds [of 80 180 lib g3] by auto
  obtain green g5 where 5: "randint lib 80 180 g4 = Inr (green, g5)"
    using randint_succeeds [of 80 180 lib g4] by auto
  show ?thesis
    by (simp add: draw_blob_def bind_exn_def 1 2 3 4 5 assms(3) assms(4))
qed

lemma paste_blob_succeeds:
  assumes "0 \<le> radius b"
  shows "\<exists>img'. paste_blob lib img b = Inr img'"
  using assms
  by (simp add: paste_blob_def glow_of_def radial_mask_def bind_exn_def image_new_def)

lemma glow_loop_succeeds:
  assumes "rng_ok lib" and "0 \<le> width" and "0 \<le> height"
    and "times_0_3 (min width height) = Inr lo" and "times_0_6 (min width height) = Inr hi"
    and "0 \<le> lo" and "lo \<le> hi"
  shows "\<exists>img' g'. glow_loop lib width height n (img, g) = Inr (img', g')"
proof (induction n arbitrary: img g)
  case 0
  show ?case by simp
next
  case (Suc n)
  obtain b g1 where d: "draw_blob lib width height g = Inr (b, g1)"
    using draw_blob_succeeds [OF assms(2) assms(3) assms(4) assms(5) assms(7), where lib = lib and g = g] by blast
  have "drawn_ranges width height b"
    using drawn_in_order_ranges [OF assms(1) draw_blob_in_order [OF d]] .
  then have "0 \<le> radius b"
    using assms(4) assms(5) assms(6) by (simp add: drawn_ranges_def)
  then obtain img1 where p: "paste_blob lib img b = Inr img1"
    using paste_blob_succeeds by blast
  show ?case
    using Suc.IH [of img1 g1] by (simp add: d p bind_exn_def)
qed


lemma glow_loop_Suc:
  assumes "glow_loop lib width height (Suc n) (img, g) = Inr s"
  shows "\<exists>b g1 i1. draw_blob lib width height g = Inr (b, g1)
           \<and> paste_blob lib img b = Inr i1
           \<and> glow_loop lib width height n (i1, g1) = Inr s"
  using assms by (auto simp add: bind_exn_def split: sum.splits prod.splits)

lemma rng_ok_example_lib: "rng_ok example_lib"
  by (auto simp add: rng_ok_def example_lib_def split: list.splits)

text \<open>
  The ranges as the specification words them do not hold: with the draws 256, 1, 0, 3, 4 on
  a 256 by 256 image the centre has \<open>cx = 256\<close>, which is not below the width, and the
  radius is 76, which is below 0.3 times 256.
\<close>

theorem glow_blob_ranges_counterexample:
  "draw_blob example_lib 256 256 [256, 1, 0, 3, 4]
     = Inr (\<lparr>cx = 256, cy = 1, radius = 76, color = [83, 84, 255]\<rparr>, [])
   \<and> \<not> claimed_ranges 256 256 \<lparr>cx = 256, cy = 1, radius = 76, color = [83, 84, 255]\<rparr>"
  by (simp add: draw_blob_def bind_exn_def randint_def example_lib_def times_256
      claimed_ranges_def)

lemma synth_seeded:
  "generate_placeholder_image lib p wd ht (Some s) w =
     (fst (generate_placeholder_image lib p wd ht (Some s) w0), w)"
  by (simp add: generate_placeholder_image_def new_random_def)

text \<open>
  C1. For a fixed prompt, width, height and integer seed, the synthesizer gives the same
  result, the same image term or the same exception, in any two worlds: whatever entropy
  was consumed before, whatever the clock shows and whatever calls were made, and it
  leaves the world as it found it, since the generator is made from the seed inside the
  call. So the images the generate handler encodes for two such requests, through the
  PNG and the base64 encoder, are the same. The libraries (Pillow with the installed
  fonts, \<open>random\<close>, the encoders) are the same functions in both calls.
\<close>

theorem synthesis_deterministic:
  "fst (generate_placeholder_image lib p wd ht (Some s) w1)
     = fst (generate_placeholder_image lib p wd ht (Some s) w2)
   \<and> snd (generate_placeholder_image lib p wd ht (Some s) w1) = w1
   \<and> image_of (fst (generate_image lib
        \<lparr>req_prompt = p, req_width = wd, req_height = ht, req_seed = Some s\<rparr> w1))
     = image_of (fst (generate_image lib
        \<lparr>req_prompt = p, req_width = wd, req_height = ht, req_seed = Some s\<rparr> w2))"
proof -
  define R where "R = fst (generate_placeholder_image lib p wd ht (Some s) w1)"
  have syn: "generate_placeholder_image lib p wd ht (Some s) w = (R, w)" for w
    unfolding R_def by (rule synth_seeded)
  have img: "image_of (fst (generate_image lib
        \<lparr>req_prompt = p, req_width = wd, req_height = ht, req_seed = Some s\<rparr> w))
      = (case R of Inl e \<Rightarrow> None
         | Inr im \<Rightarrow> (case save_png lib im of Inl e \<Rightarrow> None
                      | Inr png \<Rightarrow> Some (b64encode lib png)))" for w
    by (simp add: generate_image_def resolve_seed_def syn failed_def Let_def
        split: sum.splits)
  show ?thesis
    by (simp add: syn img)
qed

lemma from_bytes_big_4:
  "from_bytes_big [a, b, c, d] = uint a * 2 ^ 24 + uint b * 2 ^ 16 + uint c * 2 ^ 8 + uint d"
  by (simp add: from_bytes_big_def)

lemma uint_byte: "0 \<le> uint (b :: 8 word) \<and> uint b \<le> 255"
  using uint_bounded [of b] by simp

lemma from_bytes_big_4_range:
  "0 \<le> from_bytes_big [a, b, c, d] \<and> from_bytes_big [a, b, c, d] < 2 ^ 32"
  using uint_byte [of a] uint_byte [of b] uint_byte [of c] uint_byte [of d]
  by (simp add: from_bytes_big_4)

lemma urandom_4:
  "urandom 4 w = ([entropy w (entropy_pos w), entropy w (entropy_pos w + 1),
                   entropy w (entropy_pos w + 2), entropy w (entropy_pos w + 3)],
                  w\<lparr>entropy_pos := entropy_pos w + 4\<rparr>)"
proof -
  have "[entropy_pos w ..< entropy_pos w + 4]
      = [entropy_pos w, entropy_pos w + 1, entropy_pos w + 2, entropy_pos w + 3]"
    by (simp add: upt_rec)
  then show ?thesis
    by (simp add: urandom_def)
qed

section \<open>Properties of the generate endpoint\<close>

lemma record_call_simps [simp]:
  "calls (record_call c w) = calls w @ [c]"
  "utcnow_iso (record_call c w) = utcnow_iso w"
  "entropy (record_call c w) = entropy w"
  "entropy_pos (record_call c w) = entropy_pos w"
  by (simp_all add: record_call_def)

lemma resolve_seed_calls:
  assumes "resolve_seed req w = (seed, w1)"
  shows "calls w1 = calls w @ (if req_seed req = None then [CallUrandom] else [])"
  using assms
  by (auto simp add: resolve_seed_def urandom_def record_call_def split: option.splits)

lemma generate_image_cases:
  assumes "resolve_seed req w = (seed, w1)"
  shows "generate_image lib req w =
     (case fst (generate_placeholder_image lib (req_prompt req) (req_width req) (req_height req)
                  (Some seed) w1) of
        Inl e \<Rightarrow> (failed e, record_call CallSynthesize w1)
      | Inr img \<Rightarrow>
          (case save_png lib img of
             Inl e \<Rightarrow> (failed e, record_call CallSave (record_call CallSynthesize w1))
           | Inr png \<Rightarrow>
               (Http200 \<lparr>image_base64 = b64encode lib png, mime_type = ascii ''image/png'',
                  resp_width = req_width req, resp_height = req_height req,
                  resp_prompt = req_prompt req, resp_seed = seed,
                  generated_at = utcnow_iso w1 @ ascii ''Z''\<rparr>,
                record_call CallUtcnow (record_call CallB64encode
                  (record_call CallSave (record_call CallSynthesize w1))))))"
proof -
  have syn: "generate_placeholder_image lib (req_prompt req) (req_width req) (req_height req)
               (Some seed) (record_call CallSynthesize w1)
     = (fst (generate_placeholder_image lib (req_prompt req) (req_width req) (req_height req)
               (Some seed) w1), record_call CallSynthesize w1)"
    by (rule synth_seeded)
  show ?thesis
    by (simp add: generate_image_def assms syn Let_def split: sum.splits)
qed

lemma generate_image_calls:
  "count_list (calls (snd (generate_image lib req w))) CallSynthesize
     = count_list (calls w) CallSynthesize + 1
   \<and> count_list (calls (snd (generate_image lib req w))) CallSave
     \<le> count_list (calls w) CallSave + 1
   \<and> CallSynthesize \<in> set (calls (snd (generate_image lib req w)))"
proof -
  obtain seed w1 where r: "resolve_seed req w = (seed, w1)"
    by (cases "resolve_seed req w")
  show ?thesis
    unfolding generate_image_cases [OF r]
    by (simp add: resolve_seed_calls [OF r] split: sum.splits)
qed


lemma rng_ok_no_textsize_lib: "rng_ok no_textsize_lib"
  by (auto simp add: rng_ok_def no_textsize_lib_def example_lib_def split: list.splits)

lemma synth_example_succeeds:
  "\<exists>img. generate_placeholder_image example_lib p 256 256 (Some s) w = (Inr img, w)"
proof -
  obtain img' g' where
    l: "glow_loop example_lib 256 256 3
          (New (ascii ''RGB'') (256, 256) [10, 12, 26], seed_rng example_lib s) = Inr (img', g')"
    using glow_loop_succeeds [OF rng_ok_example_lib, of 256 256 76 153 3
        "New (ascii ''RGB'') (256, 256) [10, 12, 26]" "seed_rng example_lib s"]
    by (auto simp add: times_256)
  have "\<exists>img. draw_card_and_text example_lib p 256 256 img' = Inr img"
    by (simp add: draw_card_and_text_def bind_exn_def times_256 image_new_def Let_def
        example_lib_def)
  then show ?thesis
    using l by (auto simp add: generate_placeholder_image_def new_random_def bind_exn_def
        image_new_def)
qed

lemma synth_no_textsize_fails:
  "generate_placeholder_image no_textsize_lib p 256 256 (Some s) w =
     (Inl (Exn AttributeError
        (ascii ''_ImageDraw_ object has no attribute _multiline_textsize_'')), w)"
proof -
  obtain img' g' where
    l: "glow_loop no_textsize_lib 256 256 3
          (New (ascii ''RGB'') (256, 256) [10, 12, 26], seed_rng no_textsize_lib s) = Inr (img', g')"
    using glow_loop_succeeds [OF rng_ok_no_textsize_lib, of 256 256 76 153 3
        "New (ascii ''RGB'') (256, 256) [10, 12, 26]" "seed_rng no_textsize_lib s"]
    by (auto simp add: times_256)
  have "draw_card_and_text no_textsize_lib p 256 256 img' =
      Inl (Exn AttributeError (ascii ''_ImageDraw_ object has no attribute _multiline_textsize_''))"
    by (simp add: draw_card_and_text_def bind_exn_def times_256 image_new_def Let_def
        no_textsize_lib_def)
  then show ?thesis
    using l by (simp add: generate_placeholder_image_def new_random_def bind_exn_def
        image_new_def)
qed

lemma generate_image_example_succeeds:
  assumes "req_width req = 256" and "req_height req = 256"
  shows "\<exists>resp w'. generate_image example_lib req w = (Http200 resp, w')"
proof -
  obtain seed w1 where r: "resolve_seed req w = (seed, w1)"
    by (cases "resolve_seed req w")
  obtain img where
    i: "generate_placeholder_image example_lib (req_prompt req) 256 256 (Some seed) w1 = (Inr img, w1)"
    using synth_example_succeeds by blast
  have "save_png example_lib img = Inr [137, 80, 78, 71]"
    by (simp add: example_lib_def)
  then show ?thesis
    unfolding generate_image_cases [OF r] by (simp add: assms i)
qed


text \<open>
  C6. When the request has no seed and the handler answers with a response, the seed of
  the response is the next four bytes of the operating system's entropy read as a
  big-endian unsigned number, so it lies from 0 up to, not including, \<open>2 ^ 32\<close>; the four
  bytes are consumed and \<open>os.urandom\<close> was called. The seed field of a response is an
  integer by its type: it is never absent.
\<close>

theorem seed_assigned_from_entropy:
  assumes "req_seed req = None" and "generate_image lib req w = (Http200 resp, w')"
  shows "resp_seed resp = from_bytes_big (fst (urandom 4 w))
         \<and> (\<exists>a b c d. fst (urandom 4 w) = [a, b, c, d]
               \<and> resp_seed resp = uint a * 2 ^ 24 + uint b * 2 ^ 16 + uint c * 2 ^ 8 + uint d)
         \<and> 0 \<le> resp_seed resp \<and> resp_seed resp < 2 ^ 32
         \<and> entropy_pos w' = entropy_pos w + 4
         \<and> CallUrandom \<in> set (calls w')"
proof -
  define bs where "bs = [entropy w (entropy_pos w), entropy w (entropy_pos w + 1),
                         entropy w (entropy_pos w + 2), entropy w (entropy_pos w + 3)]"
  define w1 where "w1 = (record_call CallUrandom w)\<lparr>entropy_pos := entropy_pos w + 4\<rparr>"
  have u: "fst (urandom 4 w) = bs"
    by (simp add: urandom_4 bs_def)
  have r: "resolve_seed req w = (from_bytes_big bs, w1)"
    by (simp add: resolve_seed_def assms(1) urandom_4 bs_def w1_def)
  have w1: "entropy_pos w1 = entropy_pos w + 4" "calls w1 = calls w @ [CallUrandom]"
    by (simp_all add: w1_def)
  have "resp_seed resp = from_bytes_big bs \<and> entropy_pos w' = entropy_pos w1
        \<and> CallUrandom \<in> set (calls w')"
    using assms(2) unfolding generate_image_cases [OF r]
    by (auto simp add: failed_def w1 split: sum.splits)
  then show ?thesis
    using from_bytes_big_4_range [of "entropy w (entropy_pos w)" "entropy w (entropy_pos w + 1)"
        "entropy w (entropy_pos w + 2)" "entropy w (entropy_pos w + 3)"]
    by (simp add: u w1 bs_def from_bytes_big_4)
qed

theorem seed_assigned_from_entropy_witness:
  "req_seed \<lparr>req_prompt = ascii ''A cat'', req_width = 256, req_height = 256, req_seed = None\<rparr> = None
   \<and> (\<exists>resp w'. generate_image example_lib
          \<lparr>req_prompt = ascii ''A cat'', req_width = 256, req_height = 256, req_seed = None\<rparr>
          example_world = (Http200 resp, w')
        \<and> resp_seed resp = 16909060 \<and> entropy_pos w' = 4)"
proof -
  obtain resp w' where
    g: "generate_image example_lib
          \<lparr>req_prompt = ascii ''A cat'', req_width = 256, req_height = 256, req_seed = None\<rparr>
          example_world = (Http200 resp, w')"
    using generate_image_example_succeeds
      [of "\<lparr>req_prompt = ascii ''A cat'', req_width = 256, req_height = 256, req_seed = None\<rparr>"
          example_world]
    by auto
  have "resp_seed resp = 16909060 \<and> entropy_pos w' = 4"
    using seed_assigned_from_entropy [OF _ g]
    by (simp add: urandom_4 example_world_def from_bytes_big_4)
  then show ?thesis
    using g by auto
qed

lemma synth_no_save_succeeds:
  "\<exists>img. generate_placeholder_image no_save_lib p 256 256 (Some s) w = (Inr img, w)"
proof -
  have ok: "rng_ok no_save_lib"
    by (auto simp add: rng_ok_def no_save_lib_def example_lib_def split: list.splits)
  obtain img' g' where
    l: "glow_loop no_save_lib 256 256 3
          (New (ascii ''RGB'') (256, 256) [10, 12, 26], seed_rng no_save_lib s) = Inr (img', g')"
    using glow_loop_succeeds [OF ok, of 256 256 76 153 3
        "New (ascii ''RGB'') (256, 256) [10, 12, 26]" "seed_rng no_save_lib s"]
    by (auto simp add: times_256)
  have "\<exists>img. draw_card_and_text no_save_lib p 256 256 img' = Inr img"
    by (simp add: draw_card_and_text_def bind_exn_def times_256 image_new_def Let_def
        no_save_lib_def example_lib_def)
  then show ?thesis
    using l by (auto simp add: generate_placeholder_image_def new_random_def bind_exn_def
        image_new_def)
qed

text \<open>
  C7 (as amended). When the synthesizer raises an exception, or the PNG encoder raises one
  on the image the synthesizer returned, the generate handler answers with status 500 and
  the detail \<open>Generation failed: \<close> followed by the whole message of the exception,
  \<open>str(e)\<close>, not shortened. The synthesizer was called once in the request and the
  encoder at most once: nothing is retried.
\<close>

theorem generation_failure_500:
  assumes "resolve_seed req w = (seed, w1)"
    and "fst (generate_placeholder_image lib (req_prompt req) (req_width req) (req_height req)
               (Some seed) w1) = Inl e
         \<or> (\<exists>img. fst (generate_placeholder_image lib (req_prompt req) (req_width req)
                        (req_height req) (Some seed) w1) = Inr img
                  \<and> save_png lib img = Inl e)"
  shows "fst (generate_image lib req w) = Http500 (ascii ''Generation failed: '' @ str_exn e)
         \<and> count_list (calls (snd (generate_image lib req w))) CallSynthesize
             = count_list (calls w) CallSynthesize + 1
         \<and> count_list (calls (snd (generate_image lib req w))) CallSave
             \<le> count_list (calls w) CallSave + 1"
proof -
  have "fst (generate_image lib req w) = Http500 (ascii ''Generation failed: '' @ str_exn e)"
    using assms(2) unfolding generate_image_cases [OF assms(1)]
    by (auto simp add: failed_def)
  then show ?thesis
    using generate_image_calls [of lib req w] by simp
qed

theorem generation_failure_500_witness:
  "resolve_seed \<lparr>req_prompt = ascii ''A cat'', req_width = 256, req_height = 256, req_seed = Some 42\<rparr>
     example_world = (42, example_world)
   \<and> fst (generate_placeholder_image no_textsize_lib (ascii ''A cat'') 256 256 (Some 42) example_world)
       = Inl (Exn AttributeError (ascii ''_ImageDraw_ object has no attribute _multiline_textsize_''))
   \<and> fst (generate_image no_textsize_lib
        \<lparr>req_prompt = ascii ''A cat'', req_width = 256, req_height = 256, req_seed = Some 42\<rparr>
        example_world)
       = Http500 (ascii ''Generation failed: _ImageDraw_ object has no attribute _multiline_textsize_'')
   \<and> (\<exists>img. fst (generate_placeholder_image no_save_lib (ascii ''A cat'') 256 256 (Some 42) example_world)
              = Inr img
            \<and> save_png no_save_lib img = Inl (Exn OSError (ascii ''encoder error -2 when writing image file'')))
   \<and> fst (generate_image no_save_lib
        \<lparr>req_prompt = ascii ''A cat'', req_width = 256, req_height = 256, req_seed = Some 42\<rparr>
        example_world)
       = Http500 (ascii ''Generation failed: encoder error -2 when writing image file'')"
proof -
  let ?req = "\<lparr>req_prompt = ascii ''A cat'', req_width = 256, req_height = 256, req_seed = Some 42\<rparr>"
  have r: "resolve_seed ?req example_world = (42, example_world)"
    by (simp add: resolve_seed_def)
  have f: "fst (generate_placeholder_image no_textsize_lib (req_prompt ?req) (req_width ?req)
              (req_height ?req) (Some 42) example_world)
       = Inl (Exn AttributeError (ascii ''_ImageDraw_ object has no attribute _multiline_textsize_''))"
    by (simp add: synth_no_textsize_fails)
  obtain img where
    i: "generate_placeholder_image no_save_lib (ascii ''A cat'') 256 256 (Some 42) example_world
          = (Inr img, example_world)"
    using synth_no_save_succeeds by blast
  have s: "save_png no_save_lib img = Inl (Exn OSError (ascii ''encoder error -2 when writing image file''))"
    by (simp add: no_save_lib_def)
  have h2: "fst (generate_placeholder_image no_save_lib (req_prompt ?req) (req_width ?req)
              (req_height ?req) (Some 42) example_world) = Inr img
        \<and> save_png no_save_lib img = Inl (Exn OSError (ascii ''encoder error -2 when writing image file''))"
    using i s by simp
  have a: "fst (generate_image no_textsize_lib ?req example_world)
       = Http500 (ascii ''Generation failed: _ImageDraw_ object has no attribute _multiline_textsize_'')"
    using generation_failure_500 [OF r, of no_textsize_lib
        "Exn AttributeError (ascii ''_ImageDraw_ object has no attribute _multiline_textsize_'')"] f
    by auto
  have b: "fst (generate_image no_save_lib ?req example_world)
       = Http500 (ascii ''Generation failed: encoder error -2 when writing image file'')"
    using generation_failure_500 [OF r, of no_save_lib
        "Exn OSError (ascii ''encoder error -2 when writing image file'')"] h2
    by auto
  show ?thesis
    using r f a b h2 by auto
qed

text \<open>
  The detail is not a truncated form of the message: a message of 56 characters appears
  whole in the detail, which differs from the detail with the message cut to its first 50
  characters, the cut the diagnostics endpoint makes.
\<close>

theorem generation_failure_detail_counterexample:
  "fst (generate_image no_textsize_lib
        \<lparr>req_prompt = ascii ''A cat'', req_width = 256, req_height = 256, req_seed = Some 42\<rparr>
        example_world)
     = Http500 (ascii ''Generation failed: _ImageDraw_ object has no attribute _multiline_textsize_'')
   \<and> fst (generate_image no_textsize_lib
        \<lparr>req_prompt = ascii ''A cat'', req_width = 256, req_height = 256, req_seed = Some 42\<rparr>
        example_world)
     \<noteq> Http500 (ascii ''Generation failed: ''
          @ take 50 (ascii ''_ImageDraw_ object has no attribute _multiline_textsize_''))"
proof -
  let ?req = "\<lparr>req_prompt = ascii ''A cat'', req_width = 256, req_height = 256, req_seed = Some 42\<rparr>"
  have r: "resolve_seed ?req example_world = (42, example_world)"
    by (simp add: resolve_seed_def)
  show ?thesis
    unfolding generate_image_cases [OF r]
    by (simp add: synth_no_textsize_fails failed_def)
qed

lemma validate_seed:
  "validate (raw\<lparr>raw_seed := sd\<rparr>) =
     (case validate raw of Inl errs \<Rightarrow> Inl errs | Inr r \<Rightarrow> Inr (r\<lparr>req_seed := sd\<rparr>))"
  by (simp add: validate_def Let_def)

text \<open>
  C10. In every response of the generate handler the width, the height and the prompt are
  those of the request, copied and not measured from the image, and when the request
  carries a seed the response carries the same seed. Validation does not look at the
  seed: a request passes or fails with any integer seed, negative ones included, as it
  does without, and the seed reaches the handler unchanged.
\<close>

theorem response_echoes_request:
  assumes "generate_image lib req w = (Http200 resp, w')"
  shows "resp_width resp = req_width req \<and> resp_height resp = req_height req
         \<and> resp_prompt resp = req_prompt req
         \<and> (req_seed req = Some s \<longrightarrow> resp_seed resp = s)
         \<and> validate (raw\<lparr>raw_seed := Some s\<rparr>) =
             (case validate raw of
                Inl errs \<Rightarrow> Inl errs
              | Inr r \<Rightarrow> Inr (r\<lparr>req_seed := Some s\<rparr>))"
proof -
  obtain seed w1 where r: "resolve_seed req w = (seed, w1)"
    by (cases "resolve_seed req w")
  have sd: "req_seed req = Some s \<Longrightarrow> seed = s"
    using r by (simp add: resolve_seed_def)
  have "resp_width resp = req_width req \<and> resp_height resp = req_height req
         \<and> resp_prompt resp = req_prompt req \<and> resp_seed resp = seed"
    using assms unfolding generate_image_cases [OF r]
    by (auto simp add: failed_def split: sum.splits)
  then show ?thesis
    using sd by (simp add: validate_seed)
qed

theorem response_echoes_request_witness:
  "\<exists>resp w'. generate_image example_lib
       \<lparr>req_prompt = ascii ''A cat'', req_width = 256, req_height = 256, req_seed = Some (- 5)\<rparr>
       example_world = (Http200 resp, w')
     \<and> resp_width resp = 256 \<and> resp_height resp = 256 \<and> resp_prompt resp = ascii ''A cat''
     \<and> resp_seed resp = - 5
     \<and> validate \<lparr>raw_prompt = Some (ascii ''A cat''), raw_width = Some 256,
                  raw_height = Some 256, raw_seed = Some (- 5)\<rparr>
         = Inr \<lparr>req_prompt = ascii ''A cat'', req_width = 256, req_height = 256,
                req_seed = Some (- 5)\<rparr>"
proof -
  let ?req = "\<lparr>req_prompt = ascii ''A cat'', req_width = 256, req_height = 256, req_seed = Some (- 5)\<rparr>"
  obtain resp w' where g: "generate_image example_lib ?req example_world = (Http200 resp, w')"
    using generate_image_example_succeeds [of ?req example_world] by auto
  have v: "validate \<lparr>raw_prompt = Some (ascii ''A cat''), raw_width = Some 256,
                  raw_height = Some 256, raw_seed = Some (- 5)\<rparr> = Inr ?req"
    by (simp add: validate_def check_prompt_def check_size_def encodable_def is_surrogate_def)
  show ?thesis
    using g v response_echoes_request [OF g, of "- 5"] by auto
qed






section \<open>The glow blobs of the synthesizer\<close>

lemma randint_draw_eq:
  assumes "a \<le> b"
  shows "randint_draw lib a b g = Some (a + fst (randbelow lib (b + 1 - a) g))"
  using assms by (simp add: randint_draw_def randint_def Let_def split: prod.splits)

lemma randint_uniform:
  assumes "a \<le> b" and "uniform_from G (below_draw lib (b + 1 - a)) 0 (b - a)"
  shows "uniform_from G (randint_draw lib a b) a b"
proof -
  have pt: "randint_draw lib a b g = Some v \<longleftrightarrow> below_draw lib (b + 1 - a) g = Some (v - a)"
    for g v
    unfolding randint_draw_eq [OF assms(1)] below_draw_def by auto
  have eq: "{g \<in> G. randint_draw lib a b g = Some v}
              = {g \<in> G. below_draw lib (b + 1 - a) g = Some (v - a)}" for v
    by (simp only: pt)
  have u: "finite G" "G \<noteq> {}"
    "\<And>g. g \<in> G \<Longrightarrow> \<exists>r. below_draw lib (b + 1 - a) g = Some r \<and> 0 \<le> r \<and> r \<le> b - a"
    "\<And>r r'. 0 \<le> r \<and> r \<le> b - a \<and> 0 \<le> r' \<and> r' \<le> b - a \<Longrightarrow>
        card {g \<in> G. below_draw lib (b + 1 - a) g = Some r}
          = card {g \<in> G. below_draw lib (b + 1 - a) g = Some r'}"
    using assms(2) unfolding uniform_from_def by simp_all
  show ?thesis
    unfolding uniform_from_def
  proof (intro conjI ballI allI impI)
    show "finite G" by (rule u(1))
    show "G \<noteq> {}" by (rule u(2))
  next
    fix g
    assume "g \<in> G"
    then obtain r where r: "below_draw lib (b + 1 - a) g = Some r" "0 \<le> r" "r \<le> b - a"
      using u(3) by blast
    have "randint_draw lib a b g = Some (a + r)"
      using r(1) by (simp add: pt)
    then show "\<exists>v. randint_draw lib a b g = Some v \<and> a \<le> v \<and> v \<le> b"
      using r(2) r(3) by simp
  next
    fix v v'
    assume "a \<le> v \<and> v \<le> b \<and> a \<le> v' \<and> v' \<le> b"
    then have "0 \<le> v - a \<and> v - a \<le> b - a \<and> 0 \<le> v' - a \<and> v' - a \<le> b - a"
      by simp
    then have "card {g \<in> G. below_draw lib (b + 1 - a) g = Some (v - a)}
                 = card {g \<in> G. below_draw lib (b + 1 - a) g = Some (v' - a)}"
      by (rule u(4))
    then show "card {g \<in> G. randint_draw lib a b g = Some v}
               = card {g \<in> G. randint_draw lib a b g = Some v'}"
      by (simp only: eq)
  qed
qed


lemma bind_exn_Inr: "bind_exn m f = Inr y \<longleftrightarrow> (\<exists>x. m = Inr x \<and> f x = Inr y)"
  by (cases m) (simp_all add: bind_exn_def)

lemma image_new_Inr: "image_new mode dims fill = Inr im \<Longrightarrow> im = New mode dims fill"
  by (simp add: image_new_def split: if_splits)

lemma glow_of_is_glow:
  assumes "glow_of lib b = Inr gl"
  shows "\<exists>m. radial_mask lib (radius b) = Inr m
           \<and> gl = PutAlpha (New (ascii ''RGBA'') (radius b * 2, radius b * 2) (color b @ [0])) m"
proof -
  obtain m g0 where m: "radial_mask lib (radius b) = Inr m"
    and g0: "image_new (ascii ''RGBA'') (radius b * 2, radius b * 2) (color b @ [0]) = Inr g0"
    and gl: "gl = PutAlpha g0 m"
    using assms unfolding glow_of_def bind_exn_Inr by auto
  show ?thesis
    using m gl image_new_Inr [OF g0] by simp
qed

lemma paste_blob_shape:
  assumes "paste_blob lib img b = Inr img'"
  shows "\<exists>gl. glow_of lib b = Inr gl
           \<and> img' = Paste img gl (cx b - radius b, cy b - radius b) gl"
  using assms unfolding paste_blob_def bind_exn_Inr by auto


lemma draw_card_and_text_glows:
  assumes "draw_card_and_text lib prompt width height img = Inr img'"
  shows "pasted_glows img' = pasted_glows img"
proof -
  obtain cm card0 scaled sz where
    c: "image_new (ascii ''RGBA'') (width - cm - cm, height - cm - cm) [20, 24, 48, 180] = Inr card0"
    and i: "img' =
      MultilineText
        (MultilineText (Paste img (GaussianBlur card0 1 2) (cm, cm) (GaussianBlur card0 1 2))
           ((width - fst sz) div 2 + 2, (height - snd sz) div 2 + 2)
           (str_join [10] (wrap_text prompt 32)) (get_font lib (max 18 scaled))
           [0, 0, 0, 255] 8 (ascii ''center''))
        ((width - fst sz) div 2, (height - snd sz) div 2)
        (str_join [10] (wrap_text prompt 32)) (get_font lib (max 18 scaled))
        [230, 240, 255, 255] 8 (ascii ''center'')"
    using assms unfolding draw_card_and_text_def bind_exn_Inr Let_def
    by (auto simp add: split_beta)
  show ?thesis
    by (simp add: i)
qed


lemma synth_Inr:
  assumes "generate_placeholder_image lib prompt width height (Some seed) w = (Inr img, w')"
  shows "\<exists>img3 g3.
           glow_loop lib width height 3
             (New (ascii ''RGB'') (width, height) [10, 12, 26], seed_rng lib seed) = Inr (img3, g3)
           \<and> draw_card_and_text lib prompt width height img3 = Inr img"
proof -
  have "bind_exn (image_new (ascii ''RGB'') (width, height) [10, 12, 26]) (\<lambda>img.
         bind_exn (glow_loop lib width height 3 (img, seed_rng lib seed)) (\<lambda>(img', rnd').
           draw_card_and_text lib prompt width height img')) = Inr img"
    using assms by (simp add: generate_placeholder_image_def new_random_def)
  then obtain img0 s3 where
    n: "image_new (ascii ''RGB'') (width, height) [10, 12, 26] = Inr img0"
    and l: "glow_loop lib width height 3 (img0, seed_rng lib seed) = Inr s3"
    and d: "(case s3 of (img', rnd') \<Rightarrow> draw_card_and_text lib prompt width height img') = Inr img"
    by (auto simp add: bind_exn_Inr)
  obtain img3 g3 where s3: "s3 = (img3, g3)"
    by (cases s3)
  show ?thesis
    using l d image_new_Inr [OF n] by (simp add: s3)
qed

text \<open>
  C2 (as amended). When the synthesizer, called with an integer seed, returns an image,
  that image has exactly three glows composited into it. The three blobs are drawn one
  after the other from the generator made from the seed, each from the state the one
  before left, and within a blob in this order: \<open>cx\<close> by \<open>randint(0, width)\<close>, \<open>cy\<close> by
  \<open>randint(0, height)\<close>, the radius by \<open>randint\<close> between \<open>int(0.3 * m)\<close> and
  \<open>int(0.6 * m)\<close> for the smaller side \<open>m\<close>, and the red and green channels by
  \<open>randint(80, 180)\<close>, with blue 255. Every one of these numbers lies in its range, both
  ends included. Each glow is the blob's colour with the radial mask of the blob's radius
  as alpha, and the three are pasted in order onto the background at the centre minus the
  radius; the card and the text are drawn on the result. The draws are uniform:
  \<open>randint(a, b)\<close> is uniform on the integers from \<open>a\<close> to \<open>b\<close>, both included, over any
  set of generator states on which the library's \<open>_randbelow(b + 1 - a)\<close> is uniform.
\<close>

theorem synthesizer_glow_blobs:
  assumes "rng_ok lib"
    and "generate_placeholder_image lib prompt width height (Some seed) w = (Inr img, w')"
  shows "(\<exists>b1 b2 b3 g1 g2 g3 m1 m2 m3 gl1 gl2 gl3 img3.
           drawn_in_order lib width height (seed_rng lib seed) b1 g1
           \<and> drawn_in_order lib width height g1 b2 g2
           \<and> drawn_in_order lib width height g2 b3 g3
           \<and> drawn_ranges width height b1
           \<and> drawn_ranges width height b2
           \<and> drawn_ranges width height b3
           \<and> radial_mask lib (radius b1) = Inr m1
           \<and> radial_mask lib (radius b2) = Inr m2
           \<and> radial_mask lib (radius b3) = Inr m3
           \<and> gl1 = PutAlpha (New (ascii ''RGBA'') (radius b1 * 2, radius b1 * 2) (color b1 @ [0])) m1
           \<and> gl2 = PutAlpha (New (ascii ''RGBA'') (radius b2 * 2, radius b2 * 2) (color b2 @ [0])) m2
           \<and> gl3 = PutAlpha (New (ascii ''RGBA'') (radius b3 * 2, radius b3 * 2) (color b3 @ [0])) m3
           \<and> img3 =
               Paste
                 (Paste
                    (Paste (New (ascii ''RGB'') (width, height) [10, 12, 26])
                       gl1 (cx b1 - radius b1, cy b1 - radius b1) gl1)
                    gl2 (cx b2 - radius b2, cy b2 - radius b2) gl2)
                 gl3 (cx b3 - radius b3, cy b3 - radius b3) gl3
           \<and> draw_card_and_text lib prompt width height img3 = Inr img)
         \<and> pasted_glows img = 3
         \<and> (\<forall>G a b. a \<le> b \<and> uniform_from G (below_draw lib (b + 1 - a)) 0 (b - a) \<longrightarrow>
               uniform_from G (randint_draw lib a b) a b)"
proof -
  let ?img0 = "New (ascii ''RGB'') (width, height) [10, 12, 26]"
  obtain img3 g3 where
    l: "glow_loop lib width height 3 (?img0, seed_rng lib seed) = Inr (img3, g3)"
    and d: "draw_card_and_text lib prompt width height img3 = Inr img"
    using synth_Inr [OF assms(2)] by blast
  have l3: "glow_loop lib width height (Suc (Suc (Suc 0))) (?img0, seed_rng lib seed) = Inr (img3, g3)"
    using l by (simp add: numeral_3_eq_3)
  obtain b1 g1 i1 where
    1: "draw_blob lib width height (seed_rng lib seed) = Inr (b1, g1)"
       "paste_blob lib ?img0 b1 = Inr i1"
       "glow_loop lib width height (Suc (Suc 0)) (i1, g1) = Inr (img3, g3)"
    using glow_loop_Suc [OF l3] by blast
  obtain b2 g2 i2 where
    2: "draw_blob lib width height g1 = Inr (b2, g2)" "paste_blob lib i1 b2 = Inr i2"
       "glow_loop lib width height (Suc 0) (i2, g2) = Inr (img3, g3)"
    using glow_loop_Suc [OF 1(3)] by blast
  obtain b3 g3' i3 where
    3: "draw_blob lib width height g2 = Inr (b3, g3')" "paste_blob lib i2 b3 = Inr i3"
       "glow_loop lib width height 0 (i3, g3') = Inr (img3, g3)"
    using glow_loop_Suc [OF 2(3)] by blast
  have e: "i3 = img3" "g3' = g3"
    using 3(3) by simp_all
  note o1 = draw_blob_in_order [OF 1(1)]
  note o2 = draw_blob_in_order [OF 2(1)]
  note o3 = draw_blob_in_order [OF 3(1) [unfolded e]]
  note r1 = drawn_in_order_ranges [OF assms(1) o1]
  note r2 = drawn_in_order_ranges [OF assms(1) o2]
  note r3 = drawn_in_order_ranges [OF assms(1) o3]
  obtain gl1 where p1: "glow_of lib b1 = Inr gl1"
    "i1 = Paste ?img0 gl1 (cx b1 - radius b1, cy b1 - radius b1) gl1"
    using paste_blob_shape [OF 1(2)] by blast
  obtain gl2 where p2: "glow_of lib b2 = Inr gl2"
    "i2 = Paste i1 gl2 (cx b2 - radius b2, cy b2 - radius b2) gl2"
    using paste_blob_shape [OF 2(2)] by blast
  obtain gl3 where p3: "glow_of lib b3 = Inr gl3"
    "img3 = Paste i2 gl3 (cx b3 - radius b3, cy b3 - radius b3) gl3"
    using paste_blob_shape [OF 3(2) [unfolded e]] by blast
  obtain m1 where q1: "radial_mask lib (radius b1) = Inr m1"
    "gl1 = PutAlpha (New (ascii ''RGBA'') (radius b1 * 2, radius b1 * 2) (color b1 @ [0])) m1"
    using glow_of_is_glow [OF p1(1)] by blast
  obtain m2 where q2: "radial_mask lib (radius b2) = Inr m2"
    "gl2 = PutAlpha (New (ascii ''RGBA'') (radius b2 * 2, radius b2 * 2) (color b2 @ [0])) m2"
    using glow_of_is_glow [OF p2(1)] by blast
  obtain m3 where q3: "radial_mask lib (radius b3) = Inr m3"
    "gl3 = PutAlpha (New (ascii ''RGBA'') (radius b3 * 2, radius b3 * 2) (color b3 @ [0])) m3"
    using glow_of_is_glow [OF p3(1)] by blast
  have shape: "img3 =
               Paste
                 (Paste
                    (Paste (New (ascii ''RGB'') (width, height) [10, 12, 26])
                       gl1 (cx b1 - radius b1, cy b1 - radius b1) gl1)
                    gl2 (cx b2 - radius b2, cy b2 - radius b2) gl2)
                 gl3 (cx b3 - radius b3, cy b3 - radius b3) gl3"
    using p1(2) p2(2) p3(2) by simp
  have "pasted_glows img3 = 3"
    by (simp add: shape q1(2) q2(2) q3(2))
  then have count: "pasted_glows img = 3"
    using draw_card_and_text_glows [OF d] by simp
  have blobs: "\<exists>b1 b2 b3 g1 g2 g3 m1 m2 m3 gl1 gl2 gl3 img3.
           drawn_in_order lib width height (seed_rng lib seed) b1 g1
           \<and> drawn_in_order lib width height g1 b2 g2
           \<and> drawn_in_order lib width height g2 b3 g3
           \<and> drawn_ranges width height b1
           \<and> drawn_ranges width height b2
           \<and> drawn_ranges width height b3
           \<and> radial_mask lib (radius b1) = Inr m1
           \<and> radial_mask lib (radius b2) = Inr m2
           \<and> radial_mask lib (radius b3) = Inr m3
           \<and> gl1 = PutAlpha (New (ascii ''RGBA'') (radius b1 * 2, radius b1 * 2) (color b1 @ [0])) m1
           \<and> gl2 = PutAlpha (New (ascii ''RGBA'') (radius b2 * 2, radius b2 * 2) (color b2 @ [0])) m2
           \<and> gl3 = PutAlpha (New (ascii ''RGBA'') (radius b3 * 2, radius b3 * 2) (color b3 @ [0])) m3
           \<and> img3 =
               Paste
                 (Paste
                    (Paste (New (ascii ''RGB'') (width, height) [10, 12, 26])
                       gl1 (cx b1 - radius b1, cy b1 - radius b1) gl1)
                    gl2 (cx b2 - radius b2, cy b2 - radius b2) gl2)
                 gl3 (cx b3 - radius b3, cy b3 - radius b3) gl3
           \<and> draw_card_and_text lib prompt width height img3 = Inr img"
  proof (intro exI conjI)
    show "drawn_in_order lib width height (seed_rng lib seed) b1 g1" by (rule o1)
    show "drawn_in_order lib width height g1 b2 g2" by (rule o2)
    show "drawn_in_order lib width height g2 b3 g3" by (rule o3)
    show "drawn_ranges width height b1" by (rule r1)
    show "drawn_ranges width height b2" by (rule r2)
    show "drawn_ranges width height b3" by (rule r3)
    show "radial_mask lib (radius b1) = Inr m1" by (rule q1(1))
    show "radial_mask lib (radius b2) = Inr m2" by (rule q2(1))
    show "radial_mask lib (radius b3) = Inr m3" by (rule q3(1))
    show "gl1 = PutAlpha (New (ascii ''RGBA'') (radius b1 * 2, radius b1 * 2) (color b1 @ [0])) m1"
      by (rule q1(2))
    show "gl2 = PutAlpha (New (ascii ''RGBA'') (radius b2 * 2, radius b2 * 2) (color b2 @ [0])) m2"
      by (rule q2(2))
    show "gl3 = PutAlpha (New (ascii ''RGBA'') (radius b3 * 2, radius b3 * 2) (color b3 @ [0])) m3"
      by (rule q3(2))
    show "img3 =
               Paste
                 (Paste
                    (Paste (New (ascii ''RGB'') (width, height) [10, 12, 26])
                       gl1 (cx b1 - radius b1, cy b1 - radius b1) gl1)
                    gl2 (cx b2 - radius b2, cy b2 - radius b2) gl2)
                 gl3 (cx b3 - radius b3, cy b3 - radius b3) gl3"
      by (rule shape)
    show "draw_card_and_text lib prompt width height img3 = Inr img" by (rule d)
  qed
  have uni: "\<forall>G a b. a \<le> b \<and> uniform_from G (below_draw lib (b + 1 - a)) 0 (b - a) \<longrightarrow>
               uniform_from G (randint_draw lib a b) a b"
  proof (intro allI impI)
    fix G :: "'a set" and a b :: int
    assume h: "a \<le> b \<and> uniform_from G (below_draw lib (b + 1 - a)) 0 (b - a)"
    show "uniform_from G (randint_draw lib a b) a b"
      using h by (intro randint_uniform) simp_all
  qed
  show ?thesis
    using blobs count uni by (intro conjI)
qed


lemma example_below_draw:
  assumes "0 \<le> x" and "x \<le> 256"
  shows "below_draw example_lib 257 [x] = Some x"
  using assms by (simp add: below_draw_def example_lib_def)

lemma example_uniform:
  "uniform_from ((\<lambda>x. [x]) ` {0..256}) (below_draw example_lib 257) 0 256"
  unfolding uniform_from_def
proof (intro conjI ballI allI impI)
  show "finite ((\<lambda>x. [x :: int]) ` {0..256})"
    by simp
  show "(\<lambda>x. [x :: int]) ` {0..256} \<noteq> {}"
    by simp
next
  fix g :: "int list"
  assume "g \<in> (\<lambda>x. [x]) ` {0..256}"
  then obtain x where x: "g = [x]" "0 \<le> x" "x \<le> 256"
    by auto
  show "\<exists>v. below_draw example_lib 257 g = Some v \<and> 0 \<le> v \<and> v \<le> 256"
    using x by (simp add: example_below_draw)
next
  fix v v' :: int
  assume r: "0 \<le> v \<and> v \<le> 256 \<and> 0 \<le> v' \<and> v' \<le> 256"
  have one: "{g \<in> (\<lambda>x. [x]) ` {0..256}. below_draw example_lib 257 g = Some u} = {[u]}"
    if "0 \<le> u \<and> u \<le> 256" for u :: int
  proof (rule set_eqI)
    fix g :: "int list"
    show "g \<in> {g \<in> (\<lambda>x. [x]) ` {0..256}. below_draw example_lib 257 g = Some u} \<longleftrightarrow> g \<in> {[u]}"
    proof
      assume "g \<in> {g \<in> (\<lambda>x. [x]) ` {0..256}. below_draw example_lib 257 g = Some u}"
      then obtain x where x: "g = [x]" "0 \<le> x" "x \<le> 256"
        and d: "below_draw example_lib 257 g = Some u"
        by auto
      have "x = u"
        using d x by (simp add: example_below_draw)
      then show "g \<in> {[u]}"
        using x(1) by simp
    next
      assume "g \<in> {[u]}"
      then have g: "g = [u]"
        by simp
      have "below_draw example_lib 257 [u] = Some u"
        using that by (simp add: example_below_draw)
      then show "g \<in> {g \<in> (\<lambda>x. [x]) ` {0..256}. below_draw example_lib 257 g = Some u}"
        using that g by simp
    qed
  qed
  show "card {g \<in> (\<lambda>x. [x]) ` {0..256}. below_draw example_lib 257 g = Some v}
        = card {g \<in> (\<lambda>x. [x]) ` {0..256}. below_draw example_lib 257 g = Some v'}"
    using r by (simp add: one)
qed

theorem synthesizer_glow_blobs_witness:
  "rng_ok example_lib
   \<and> (\<exists>img. generate_placeholder_image example_lib (ascii ''A cat'') 256 256 (Some 42) example_world
              = (Inr img, example_world)
            \<and> pasted_glows img = 3)
   \<and> (0 :: int) \<le> 256
   \<and> uniform_from ((\<lambda>x. [x]) ` {0..256}) (below_draw example_lib (256 + 1 - 0)) 0 (256 - 0)
   \<and> uniform_from ((\<lambda>x. [x]) ` {0..256}) (randint_draw example_lib 0 256) 0 256"
proof -
  obtain img where
    i: "generate_placeholder_image example_lib (ascii ''A cat'') 256 256 (Some 42) example_world
          = (Inr img, example_world)"
    using synth_example_succeeds by blast
  note t = synthesizer_glow_blobs [OF rng_ok_example_lib i]
  have c: "pasted_glows img = 3"
    using t by (rule conjunct1 [OF conjunct2])
  have u: "uniform_from ((\<lambda>x. [x]) ` {0..256}) (below_draw example_lib (256 + 1 - 0)) 0 (256 - 0)"
    using example_uniform by simp
  have "\<forall>G a b. a \<le> b \<and> uniform_from G (below_draw example_lib (b + 1 - a)) 0 (b - a) \<longrightarrow>
               uniform_from G (randint_draw example_lib a b) a b"
    using t by (rule conjunct2 [OF conjunct2])
  then have "(0 :: int) \<le> 256
      \<and> uniform_from ((\<lambda>x. [x]) ` {0..256}) (below_draw example_lib (256 + 1 - 0)) 0 (256 - 0)
      \<longrightarrow> uniform_from ((\<lambda>x. [x]) ` {0..256}) (randint_draw example_lib 0 256) 0 256"
    by (rule allE [where x = "(\<lambda>x. [x]) ` {0..256}"]) (erule allE [where x = 0], erule allE [where x = 256])
  then have r: "uniform_from ((\<lambda>x. [x]) ` {0..256}) (randint_draw example_lib 0 256) 0 256"
    using u by simp
  show ?thesis
    using rng_ok_example_lib i c u r by (intro conjI exI [of _ img]) simp_all
qed

end
